theory Spec2Isabelle
  imports Main
begin

section \<open>JavaScript values\<close>

text \<open>
  The client is a TypeScript class compiled to JavaScript; its fields and the decoded
  response bodies are untyped at run time (\<open>any\<close>). They are modelled by the values
  a decoded JSON document can hold, together with \<open>undefined\<close> (what reading a missing
  property yields) and \<open>null\<close> (what the constructor stores in the session fields).
  Numbers are the safe integers (\<open>safe_integer\<close> below), which a double holds exactly and
  JavaScript prints digit by digit; other doubles are floating point and stay outside the
  model. An object is its list of own properties in the order in which JavaScript
  enumerates them (integer-like names first, then the others in insertion order).
\<close>

datatype jsval =
    JUndefined
  | JNull
  | JBool bool
  | JNum int
  | JStr string
  | JArr "jsval list"
  | JObj "(string \<times> jsval) list"

text \<open>Errors that are thrown: \<open>new Error(m)\<close>, a \<open>TypeError\<close> of the engine, and
  the error object with which the HTTP library rejects. Each carries its \<open>message\<close>.\<close>

datatype js_error =
    JsError (message: string)
  | JsTypeError (message: string)
  | AxiosError (message: string)

text \<open>The settled state of the promise an \<open>async\<close> method returns.\<close>

datatype ('e, 'a) promise = Resolved 'a | Rejected 'e

subsection \<open>ToString\<close>

fun digits :: "nat \<Rightarrow> string" where
  "digits n =
     (if n < 10 then [''0123456789'' ! n]
      else digits (n div 10) @ [''0123456789'' ! (n mod 10)])"

declare digits.simps [simp del]

definition show_int :: "int \<Rightarrow> string" where
  "show_int i = (if i < 0 then CHR ''-'' # digits (nat (- i)) else digits (nat i))"

text \<open>
  \<open>Number.isSafeInteger\<close>: the whole numbers that a double holds exactly and that
  \<open>show_int\<close> prints as JavaScript does. A record number is one of them.
\<close>

definition safe_integer :: "int \<Rightarrow> bool" where
  "safe_integer n \<longleftrightarrow> - (2 ^ 53) < n \<and> n < 2 ^ 53"

fun join_comma :: "string list \<Rightarrow> string" where
  "join_comma [] = []"
| "join_comma [s] = s"
| "join_comma (s # t # ts) = s @ CHR '','' # join_comma (t # ts)"

text \<open>
  The conversion to a string that template literals, \<open>+\<close> with a string operand,
  \<open>URLSearchParams.append\<close> and the \<open>Error\<close> constructor apply to their argument.
  An array joins its elements with commas, \<open>null\<close> and \<open>undefined\<close> elements being empty.
\<close>

fun js_to_string :: "jsval \<Rightarrow> string" where
  "js_to_string JUndefined = ''undefined''"
| "js_to_string JNull = ''null''"
| "js_to_string (JBool b) = (if b then ''true'' else ''false'')"
| "js_to_string (JNum n) = show_int n"
| "js_to_string (JStr s) = s"
| "js_to_string (JArr xs) =
     join_comma (map (\<lambda>x. if x = JUndefined \<or> x = JNull then [] else js_to_string x) xs)"
| "js_to_string (JObj kvs) = ''[object Object]''"

text \<open>Truthiness, and \<open>a || b\<close>.\<close>

fun truthy :: "jsval \<Rightarrow> bool" where
  "truthy JUndefined = False"
| "truthy JNull = False"
| "truthy (JBool b) = b"
| "truthy (JNum n) = (n \<noteq> 0)"
| "truthy (JStr s) = (s \<noteq> [])"
| "truthy (JArr xs) = True"
| "truthy (JObj kvs) = True"

definition js_or :: "jsval \<Rightarrow> jsval \<Rightarrow> jsval" where
  "js_or a b = (if truthy a then a else b)"

subsection \<open>Properties\<close>

text \<open>
  \<open>v.p\<close>: a \<open>TypeError\<close> on \<open>undefined\<close> and \<open>null\<close> (with the wording of V8),
  the property's value on an object, and \<open>undefined\<close> where there is no such property.
  The properties the client reads (\<open>success\<close>, \<open>error\<close>, \<open>message\<close>, \<open>result\<close>,
  \<open>token\<close>, \<open>sessionName\<close>, \<open>userId\<close>, \<open>assigned_user_id\<close>) are none of those
  that strings, numbers, booleans or arrays inherit.
\<close>

definition cannot_read :: "string \<Rightarrow> string \<Rightarrow> js_error" where
  "cannot_read what p =
     JsTypeError (''Cannot read properties of '' @ what @ '' (reading '' @ [CHR 0x27] @ p @ [CHR 0x27] @ '')'')"

fun js_get :: "jsval \<Rightarrow> string \<Rightarrow> js_error + jsval" where
  "js_get JUndefined p = Inl (cannot_read ''undefined'' p)"
| "js_get JNull p = Inl (cannot_read ''null'' p)"
| "js_get (JObj kvs) p = Inr (case map_of kvs p of None \<Rightarrow> JUndefined | Some v \<Rightarrow> v)"
| "js_get v p = Inr JUndefined"

text \<open>\<open>v?.p\<close>: \<open>undefined\<close> instead of the \<open>TypeError\<close>.\<close>

definition js_get_opt :: "jsval \<Rightarrow> string \<Rightarrow> jsval" where
  "js_get_opt v p = (case js_get v p of Inl e \<Rightarrow> JUndefined | Inr x \<Rightarrow> x)"

text \<open>
  \<open>o.p = v\<close> on an object: an existing property keeps its place, a new one goes last
  (the names assigned here are not integer-like).
\<close>

fun obj_set :: "string \<Rightarrow> jsval \<Rightarrow> (string \<times> jsval) list \<Rightarrow> (string \<times> jsval) list" where
  "obj_set p v [] = [(p, v)]"
| "obj_set p v ((k, w) # kvs) = (if k = p then (k, v) # kvs else (k, w) # obj_set p v kvs)"

text \<open>
  \<open>v.p = w\<close> in strict code (a class body, in a module): a \<open>TypeError\<close> on
  \<open>undefined\<close> and \<open>null\<close>, and on a string, number or boolean, which cannot take
  a property. An array takes the property beside its elements, where no encoding of the
  array shows it; the properties assigned here (\<open>assigned_user_id\<close>, \<open>id\<close>) are not
  indices.
\<close>

definition cannot_set :: "string \<Rightarrow> string \<Rightarrow> js_error" where
  "cannot_set what p =
     JsTypeError (''Cannot set properties of '' @ what @ '' (setting '' @ [CHR 0x27] @ p @ [CHR 0x27] @ '')'')"

definition cannot_create :: "string \<Rightarrow> string \<Rightarrow> jsval \<Rightarrow> js_error" where
  "cannot_create p kind v =
     JsTypeError (''Cannot create property '' @ [CHR 0x27] @ p @ [CHR 0x27] @ '' on '' @ kind @ '' ''
                  @ [CHR 0x27] @ js_to_string v @ [CHR 0x27])"

fun js_set :: "jsval \<Rightarrow> string \<Rightarrow> jsval \<Rightarrow> js_error + jsval" where
  "js_set JUndefined p w = Inl (cannot_set ''undefined'' p)"
| "js_set JNull p w = Inl (cannot_set ''null'' p)"
| "js_set (JBool b) p w = Inl (cannot_create p ''boolean'' (JBool b))"
| "js_set (JNum n) p w = Inl (cannot_create p ''number'' (JNum n))"
| "js_set (JStr s) p w = Inl (cannot_create p ''string'' (JStr s))"
| "js_set (JArr xs) p w = Inr (JArr xs)"
| "js_set (JObj kvs) p w = Inr (JObj (obj_set p w kvs))"

section \<open>Module resolver\<close>

text \<open>
  \<open>getModuleId\<close> and \<open>getModuleName\<close> are \<open>switch\<close> statements over the module key,
  with \<open>default: return null\<close>. The type \<open>VtigerModule\<close> is erased at run time, so the
  key is any string.
\<close>

definition getModuleId :: "string \<Rightarrow> jsval" where
  "getModuleId module =
     (if module = ''calendar'' then JNum 9
      else if module = ''leads'' then JNum 2
      else if module = ''accounts'' then JNum 3
      else if module = ''contacts'' then JNum 4
      else if module = ''potentials'' then JNum 5
      else if module = ''products'' then JNum 6
      else if module = ''documents'' then JNum 7
      else if module = ''emails'' then JNum 8
      else if module = ''helpdesk'' then JNum 9
      else if module = ''faq'' then JNum 10
      else if module = ''vendors'' then JNum 11
      else if module = ''pricebooks'' then JNum 12
      else if module = ''quotes'' then JNum 13
      else if module = ''purchaseorder'' then JNum 14
      else if module = ''salesorder'' then JNum 15
      else if module = ''invoice'' then JNum 16
      else if module = ''campaigns'' then JNum 17
      else if module = ''events'' then JNum 18
      else if module = ''users'' then JNum 19
      else if module = ''groups'' then JNum 20
      else if module = ''currency'' then JNum 21
      else if module = ''documentfolders'' then JNum 22
      else JNull)"

definition getModuleName :: "string \<Rightarrow> jsval" where
  "getModuleName module =
     (if module = ''calendar'' then JStr ''Calendar''
      else if module = ''leads'' then JStr ''Leads''
      else if module = ''accounts'' then JStr ''Accounts''
      else if module = ''contacts'' then JStr ''Contacts''
      else if module = ''potentials'' then JStr ''Potentials''
      else if module = ''products'' then JStr ''Products''
      else if module = ''documents'' then JStr ''Documents''
      else if module = ''emails'' then JStr ''Emails''
      else if module = ''helpdesk'' then JStr ''HelpDesk''
      else if module = ''faq'' then JStr ''Faq''
      else if module = ''vendors'' then JStr ''Vendors''
      else if module = ''pricebooks'' then JStr ''PriceBooks''
      else if module = ''quotes'' then JStr ''Quotes''
      else if module = ''purchaseorder'' then JStr ''PurchaseOrder''
      else if module = ''salesorder'' then JStr ''SalesOrder''
      else if module = ''invoice'' then JStr ''Invoice''
      else if module = ''campaigns'' then JStr ''Campaigns''
      else if module = ''events'' then JStr ''Events''
      else if module = ''users'' then JStr ''Users''
      else if module = ''groups'' then JStr ''Groups''
      else if module = ''currency'' then JStr ''Currency''
      else if module = ''documentfolders'' then JStr ''DocumentFolders''
      else JNull)"

text \<open>The type \<open>VtigerModule\<close> of \<open>types/index.ts\<close>: the 22 keys, in its order.\<close>

definition VtigerModule :: "string list" where
  "VtigerModule =
     [''calendar'', ''leads'', ''accounts'', ''contacts'', ''potentials'', ''products'',
      ''documents'', ''emails'', ''helpdesk'', ''faq'', ''vendors'', ''pricebooks'',
      ''quotes'', ''purchaseorder'', ''salesorder'', ''invoice'', ''campaigns'', ''events'',
      ''users'', ''groups'', ''currency'', ''documentfolders'']"

text \<open>
  The table of the specification (section 4.2), row by row: key, numeric ID, name.
  It is written from the specification's words, to be compared with the two functions.
\<close>

definition spec_module_table :: "(string \<times> int \<times> string) list" where
  "spec_module_table =
     [(''calendar'', 9, ''Calendar''), (''quotes'', 13, ''Quotes''),
      (''leads'', 2, ''Leads''), (''purchaseorder'', 14, ''PurchaseOrder''),
      (''accounts'', 3, ''Accounts''), (''salesorder'', 15, ''SalesOrder''),
      (''contacts'', 4, ''Contacts''), (''invoice'', 16, ''Invoice''),
      (''potentials'', 5, ''Potentials''), (''campaigns'', 17, ''Campaigns''),
      (''products'', 6, ''Products''), (''events'', 18, ''Events''),
      (''documents'', 7, ''Documents''), (''users'', 19, ''Users''),
      (''emails'', 8, ''Emails''), (''groups'', 20, ''Groups''),
      (''helpdesk'', 9, ''HelpDesk''), (''currency'', 21, ''Currency''),
      (''faq'', 10, ''Faq''), (''documentfolders'', 22, ''DocumentFolders''),
      (''vendors'', 11, ''Vendors''),
      (''pricebooks'', 12, ''PriceBooks'')]"

section \<open>Collaborators: HTTP transport, form bodies, JSON text\<close>

text \<open>
  A request as the client hands it to the HTTP library: \<open>axios.get(url, {params})\<close> with
  the \<open>params\<close> object as written, or \<open>axios.post(url, body, {headers})\<close> with the
  entries of the \<open>URLSearchParams\<close> body. How the library serialises \<open>params\<close> is its
  own business.
\<close>

datatype request =
    Get string "(string \<times> jsval) list"
  | Post string "(string \<times> string) list" "(string \<times> string) list"

text \<open>
  The transport is arbitrary: given the requests made so far and the present one, it
  fails with an error or answers with the decoded body (\<open>response.data\<close>).
\<close>

type_synonym transport = "request list \<Rightarrow> request \<Rightarrow> js_error + jsval"

definition axios_get ::
  "transport \<Rightarrow> string \<Rightarrow> (string \<times> jsval) list \<Rightarrow> request list \<Rightarrow> (js_error + jsval) \<times> request list" where
  "axios_get http u params sent = (http sent (Get u params), sent @ [Get u params])"

definition axios_post ::
  "transport \<Rightarrow> string \<Rightarrow> (string \<times> string) list \<Rightarrow> (string \<times> string) list \<Rightarrow> request list
     \<Rightarrow> (js_error + jsval) \<times> request list" where
  "axios_post http u body headers sent = (http sent (Post u body headers), sent @ [Post u body headers])"

text \<open>\<open>params.append(name, value)\<close>: the value is stored as a string.\<close>

definition usp_append :: "(string \<times> string) list \<Rightarrow> string \<Rightarrow> jsval \<Rightarrow> (string \<times> string) list" where
  "usp_append params name v = params @ [(name, js_to_string v)]"

definition form_config :: "(string \<times> string) list" where
  "form_config = [(''Content-Type'', ''application/x-www-form-urlencoded'')]"

text \<open>
  \<open>JSON.stringify\<close> is a parameter of the methods that call it. The function below is
  its behaviour on the values of the model, for running the methods on concrete inputs:
  a property whose value is \<open>undefined\<close> is left out, an \<open>undefined\<close> array element is
  \<open>null\<close>. Properties are printed in the order of the object's list, which is the
  order of enumeration.
\<close>

definition json_escape :: "char \<Rightarrow> string" where
  "json_escape ch =
     (if ch = CHR 0x22 then [CHR 0x5C, CHR 0x22]
      else if ch = CHR 0x5C then [CHR 0x5C, CHR 0x5C]
      else if ch = CHR 0x08 then [CHR 0x5C, CHR ''b'']
      else if ch = CHR 0x0C then [CHR 0x5C, CHR ''f'']
      else if ch = CHR 0x0A then [CHR 0x5C, CHR ''n'']
      else if ch = CHR 0x0D then [CHR 0x5C, CHR ''r'']
      else if ch = CHR 0x09 then [CHR 0x5C, CHR ''t'']
      else if (of_char ch :: nat) < 32 then
        [CHR 0x5C, CHR ''u'', CHR ''0'', CHR ''0'',
         ''0123456789abcdef'' ! (of_char ch div 16), ''0123456789abcdef'' ! (of_char ch mod 16)]
      else [ch])"

definition json_quote :: "string \<Rightarrow> string" where
  "json_quote s = CHR 0x22 # concat (map json_escape s) @ [CHR 0x22]"

fun JSON_stringify :: "jsval \<Rightarrow> string" where
  "JSON_stringify JUndefined = ''null''"
| "JSON_stringify JNull = ''null''"
| "JSON_stringify (JBool b) = (if b then ''true'' else ''false'')"
| "JSON_stringify (JNum n) = show_int n"
| "JSON_stringify (JStr s) = json_quote s"
| "JSON_stringify (JArr xs) = ''['' @ join_comma (map JSON_stringify xs) @ '']''"
| "JSON_stringify (JObj kvs) =
     ''{'' @ join_comma (map (\<lambda>kv. json_quote (fst kv) @ '':'' @ JSON_stringify (snd kv))
                          (filter (\<lambda>kv. snd kv \<noteq> JUndefined) kvs)) @ ''}''"

section \<open>The client\<close>

record client =
  url :: string
  username :: string
  accessKey :: string
  sessionId :: jsval
  user :: jsval
  userId :: jsval
  webserviceUrl :: string

text \<open>The constructor.\<close>

definition VtigerApiClient :: "string \<Rightarrow> string \<Rightarrow> string \<Rightarrow> client" where
  "VtigerApiClient u n k =
     \<lparr>url = u, username = n, accessKey = k,
      sessionId = JNull, user = JNull, userId = JNull,
      webserviceUrl = u @ ''/webservice.php''\<rparr>"

text \<open>
  A method returns the settled promise, the client's fields afterwards and the requests
  made so far. Every method but \<open>login\<close> ends in
  \<open>return Promise.resolve(response.data)\<close> inside \<open>try\<close>, with
  \<open>catch (error) { return Promise.reject(error) }\<close>.
\<close>

definition settle :: "js_error + jsval \<Rightarrow> (js_error, jsval) promise" where
  "settle r = (case r of Inl error \<Rightarrow> Rejected error | Inr data \<Rightarrow> Resolved data)"

subsection \<open>Session manager\<close>

text \<open>\<open>v.p.q\<close>\<close>

definition js_get2 :: "jsval \<Rightarrow> string \<Rightarrow> string \<Rightarrow> js_error + jsval" where
  "js_get2 v p q = (case js_get v p of Inl error \<Rightarrow> Inl error | Inr w \<Rightarrow> js_get w q)"

definition getChallenge ::
  "transport \<Rightarrow> client \<Rightarrow> request list \<Rightarrow> (js_error, jsval) promise \<times> client \<times> request list" where
  "getChallenge http this sent =
     (case axios_get http (webserviceUrl this)
             [(''operation'', JStr ''getchallenge''), (''username'', JStr (username this))] sent of
        (Inl error, sent1) \<Rightarrow> (Rejected error, this, sent1)
      | (Inr data, sent1) \<Rightarrow>
          (case js_get data ''success'' of
             Inl error \<Rightarrow> (Rejected error, this, sent1)
           | Inr success \<Rightarrow>
               if \<not> truthy success then
                 (case js_get data ''error'' of
                    Inl error \<Rightarrow> (Rejected error, this, sent1)
                  | Inr err \<Rightarrow>
                      (Rejected
                         (JsError (js_to_string
                            (js_or (js_get_opt err ''message'') (JStr ''Operation failed: getchallenge'')))),
                       this, sent1))
               else (Resolved data, this, sent1)))"

text \<open>\<open>error.message || error\<close>, with which \<open>login\<close> rejects.\<close>

datatype reason = Message string | ErrorObject js_error

definition message_or_error :: "js_error \<Rightarrow> reason" where
  "message_or_error error = (if message error \<noteq> [] then Message (message error) else ErrorObject error)"

text \<open>
  \<open>md5\<close> stands for \<open>s \<mapsto> md5(s).toString()\<close> of the digest library. The three
  assignments to the session fields are separate statements, each reading the response
  again; the line written to the console is not modelled.
\<close>

definition login ::
  "transport \<Rightarrow> (string \<Rightarrow> string) \<Rightarrow> client \<Rightarrow> request list
     \<Rightarrow> (reason, jsval) promise \<times> client \<times> request list" where
  "login http md5 this sent =
     (case getChallenge http this sent of
        (Rejected error, this0, sent1) \<Rightarrow> (Rejected (message_or_error error), this0, sent1)
      | (Resolved challengeResponse, this0, sent1) \<Rightarrow>
          (case js_get2 challengeResponse ''result'' ''token'' of
             Inl error \<Rightarrow> (Rejected (message_or_error error), this0, sent1)
           | Inr challengeToken \<Rightarrow>
               (let hash = md5 (js_to_string challengeToken @ accessKey this0);
                    vtigerLoginParams =
                      usp_append (usp_append (usp_append []
                        ''operation'' (JStr ''login''))
                        ''username'' (JStr (username this0)))
                        ''accessKey'' (JStr hash)
                in case axios_post http (webserviceUrl this0) vtigerLoginParams form_config sent1 of
                     (Inl error, sent2) \<Rightarrow> (Rejected (message_or_error error), this0, sent2)
                   | (Inr data, sent2) \<Rightarrow>
                       (case js_get2 data ''result'' ''sessionName'' of
                          Inl error \<Rightarrow> (Rejected (message_or_error error), this0, sent2)
                        | Inr v1 \<Rightarrow>
                            (let this1 = this0\<lparr>sessionId := v1\<rparr>
                             in case js_get2 data ''result'' ''userId'' of
                                  Inl error \<Rightarrow> (Rejected (message_or_error error), this1, sent2)
                                | Inr v2 \<Rightarrow>
                                    (let this2 = this1\<lparr>userId := v2\<rparr>
                                     in case js_get data ''result'' of
                                          Inl error \<Rightarrow> (Rejected (message_or_error error), this2, sent2)
                                        | Inr v3 \<Rightarrow> (Resolved data, this2\<lparr>user := v3\<rparr>, sent2)))))))"

definition logout ::
  "transport \<Rightarrow> client \<Rightarrow> request list \<Rightarrow> (js_error, jsval) promise \<times> client \<times> request list" where
  "logout http this sent =
     (let params = usp_append (usp_append []
                     ''operation'' (JStr ''logout''))
                     ''sessionName'' (sessionId this)
      in case axios_post http (webserviceUrl this) params form_config sent of
           (response, sent1) \<Rightarrow> (settle response, this, sent1))"

subsection \<open>Operation dispatcher\<close>

text \<open>
  \<open>module\<close> is the key as passed, \<open>recordId\<close> a record number (a safe integer),
  \<open>data\<close> any value. \<open>create\<close> and \<open>update\<close> assign to a property of the caller's
  \<open>data\<close> before encoding it, and what they encode is the updated value; where
  \<open>data\<close> cannot be read from or assigned to, the \<open>TypeError\<close> is caught by the
  method's \<open>catch\<close> and the promise rejects before any request is made. The template
  literal \<open>`${moduleId}x${recordId}`\<close> is the concatenation of the two conversions
  to a string around the letter x.
\<close>

definition create ::
  "transport \<Rightarrow> (jsval \<Rightarrow> string) \<Rightarrow> client \<Rightarrow> string \<Rightarrow> jsval \<Rightarrow> request list
     \<Rightarrow> (js_error, jsval) promise \<times> client \<times> request list" where
  "create http stringify this module data sent =
     (let moduleName = getModuleName module
      in case js_get data ''assigned_user_id'' of
           Inl error \<Rightarrow> (Rejected error, this, sent)
         | Inr assigned \<Rightarrow>
             (case js_set data ''assigned_user_id'' (js_or assigned (userId this)) of
                Inl error \<Rightarrow> (Rejected error, this, sent)
              | Inr data1 \<Rightarrow>
                  (let params = usp_append (usp_append (usp_append (usp_append []
                                  ''operation'' (JStr ''create''))
                                  ''sessionName'' (sessionId this))
                                  ''element'' (JStr (stringify data1)))
                                  ''elementType'' moduleName
                   in case axios_post http (webserviceUrl this) params form_config sent of
                        (response, sent1) \<Rightarrow> (settle response, this, sent1))))"

definition retrieve ::
  "transport \<Rightarrow> client \<Rightarrow> string \<Rightarrow> int \<Rightarrow> request list
     \<Rightarrow> (js_error, jsval) promise \<times> client \<times> request list" where
  "retrieve http this module recordId sent =
     (let moduleId = getModuleId module
      in case axios_get http (webserviceUrl this)
                [(''operation'', JStr ''retrieve''),
                 (''sessionName'', sessionId this),
                 (''id'', JStr (js_to_string moduleId @ ''x'' @ js_to_string (JNum recordId)))] sent of
           (response, sent1) \<Rightarrow> (settle response, this, sent1))"

definition update ::
  "transport \<Rightarrow> (jsval \<Rightarrow> string) \<Rightarrow> client \<Rightarrow> string \<Rightarrow> int \<Rightarrow> jsval \<Rightarrow> request list
     \<Rightarrow> (js_error, jsval) promise \<times> client \<times> request list" where
  "update http stringify this module recordId data sent =
     (let moduleId = getModuleId module
      in case js_set data ''id'' (JStr (js_to_string moduleId @ ''x'' @ js_to_string (JNum recordId))) of
           Inl error \<Rightarrow> (Rejected error, this, sent)
         | Inr data1 \<Rightarrow>
             (let params = usp_append (usp_append (usp_append []
                             ''operation'' (JStr ''update''))
                             ''sessionName'' (sessionId this))
                             ''element'' (JStr (stringify data1))
              in case axios_post http (webserviceUrl this) params form_config sent of
                   (response, sent1) \<Rightarrow> (settle response, this, sent1)))"

definition delete ::
  "transport \<Rightarrow> client \<Rightarrow> string \<Rightarrow> int \<Rightarrow> request list
     \<Rightarrow> (js_error, jsval) promise \<times> client \<times> request list" where
  "delete http this module recordId sent =
     (let moduleId = getModuleId module;
          params = usp_append (usp_append (usp_append []
                     ''operation'' (JStr ''delete''))
                     ''sessionName'' (sessionId this))
                     ''id'' (JStr (js_to_string moduleId @ ''x'' @ js_to_string (JNum recordId)))
      in case axios_post http (webserviceUrl this) params form_config sent of
           (response, sent1) \<Rightarrow> (settle response, this, sent1))"

definition query ::
  "transport \<Rightarrow> client \<Rightarrow> string \<Rightarrow> request list
     \<Rightarrow> (js_error, jsval) promise \<times> client \<times> request list" where
  "query http this q sent =
     (case axios_get http (webserviceUrl this)
             [(''operation'', JStr ''query''),
              (''sessionName'', sessionId this),
              (''query'', JStr q)] sent of
        (response, sent1) \<Rightarrow> (settle response, this, sent1))"

definition listTypes ::
  "transport \<Rightarrow> client \<Rightarrow> request list
     \<Rightarrow> (js_error, jsval) promise \<times> client \<times> request list" where
  "listTypes http this sent =
     (case axios_get http (webserviceUrl this)
             [(''operation'', JStr ''listtypes''),
              (''sessionName'', sessionId this)] sent of
        (response, sent1) \<Rightarrow> (settle response, this, sent1))"

definition describe ::
  "transport \<Rightarrow> client \<Rightarrow> string \<Rightarrow> request list
     \<Rightarrow> (js_error, jsval) promise \<times> client \<times> request list" where
  "describe http this module sent =
     (let moduleName = getModuleName module
      in case axios_get http (webserviceUrl this)
                [(''operation'', JStr ''describe''),
                 (''sessionName'', sessionId this),
                 (''elementType'', moduleName)] sent of
           (response, sent1) \<Rightarrow> (settle response, this, sent1))"

definition retrieveRelated ::
  "transport \<Rightarrow> client \<Rightarrow> string \<Rightarrow> int \<Rightarrow> string \<Rightarrow> string \<Rightarrow> request list
     \<Rightarrow> (js_error, jsval) promise \<times> client \<times> request list" where
  "retrieveRelated http this module recordId relatedModule relatedLabel sent =
     (let moduleId = getModuleId module;
          relateModuleName = getModuleName relatedModule
      in case axios_get http (webserviceUrl this)
                [(''operation'', JStr ''retrieve_related''),
                 (''sessionName'', sessionId this),
                 (''id'', JStr (js_to_string moduleId @ ''x'' @ js_to_string (JNum recordId))),
                 (''relatedLabel'', JStr relatedLabel),
                 (''relatedType'', relateModuleName)] sent of
           (response, sent1) \<Rightarrow> (settle response, this, sent1))"

definition relatedTypes ::
  "transport \<Rightarrow> client \<Rightarrow> string \<Rightarrow> request list
     \<Rightarrow> (js_error, jsval) promise \<times> client \<times> request list" where
  "relatedTypes http this module sent =
     (let moduleName = getModuleName module
      in case axios_get http (webserviceUrl this)
                [(''operation'', JStr ''relatedtypes''),
                 (''sessionName'', sessionId this),
                 (''elementType'', moduleName)] sent of
           (response, sent1) \<Rightarrow> (settle response, this, sent1))"

definition queryRelated ::
  "transport \<Rightarrow> client \<Rightarrow> string \<Rightarrow> int \<Rightarrow> string \<Rightarrow> request list
     \<Rightarrow> (js_error, jsval) promise \<times> client \<times> request list" where
  "queryRelated http this module recordId relatedLabel sent =
     (let moduleId = getModuleId module;
          moduleName = getModuleName module
      in case axios_get http (webserviceUrl this)
                [(''operation'', JStr ''query_related''),
                 (''sessionName'', sessionId this),
                 (''query'', JStr (''SELECT * FROM '' @ js_to_string moduleName)),
                 (''id'', JStr (js_to_string moduleId @ ''x'' @ js_to_string (JNum recordId))),
                 (''relatedLabel'', JStr relatedLabel)] sent of
           (response, sent1) \<Rightarrow> (settle response, this, sent1))"

definition deleteRelated ::
  "transport \<Rightarrow> client \<Rightarrow> string \<Rightarrow> int \<Rightarrow> string \<Rightarrow> int \<Rightarrow> request list
     \<Rightarrow> (js_error, jsval) promise \<times> client \<times> request list" where
  "deleteRelated http this sourceModule sourceRecordId relatedModule relatedRecordId sent =
     (let sourceModuleId = getModuleId sourceModule;
          relatedModuleId = getModuleId relatedModule;
          params = usp_append (usp_append (usp_append (usp_append []
                     ''operation'' (JStr ''delete_related''))
                     ''sessionName'' (sessionId this))
                     ''sourceRecordId''
                       (JStr (js_to_string sourceModuleId @ ''x'' @ js_to_string (JNum sourceRecordId))))
                     ''relatedRecordId''
                       (JStr (js_to_string relatedModuleId @ ''x'' @ js_to_string (JNum relatedRecordId)))
      in case axios_post http (webserviceUrl this) params form_config sent of
           (response, sent1) \<Rightarrow> (settle response, this, sent1))"

definition addRelated ::
  "transport \<Rightarrow> client \<Rightarrow> string \<Rightarrow> int \<Rightarrow> string \<Rightarrow> int \<Rightarrow> string \<Rightarrow> request list
     \<Rightarrow> (js_error, jsval) promise \<times> client \<times> request list" where
  "addRelated http this sourceModule sourceRecordId relatedModule relatedRecordId relationIdLabel sent =
     (let sourceModuleId = getModuleId sourceModule;
          relatedModuleId = getModuleId relatedModule;
          params = usp_append (usp_append (usp_append (usp_append (usp_append []
                     ''operation'' (JStr ''add_related''))
                     ''sessionName'' (sessionId this))
                     ''sourceRecordId''
                       (JStr (js_to_string sourceModuleId @ ''x'' @ js_to_string (JNum sourceRecordId))))
                     ''relatedRecordId''
                       (JStr (js_to_string relatedModuleId @ ''x'' @ js_to_string (JNum relatedRecordId))))
                     ''relationIdLabel'' (JStr relationIdLabel)
      in case axios_post http (webserviceUrl this) params form_config sent of
           (response, sent1) \<Rightarrow> (settle response, this, sent1))"

subsection \<open>Requests and stub collaborators for stating and running the properties\<close>

text \<open>The request \<open>getChallenge\<close> builds.\<close>

definition challenge_request :: "client \<Rightarrow> request" where
  "challenge_request c =
     Get (webserviceUrl c) [(''operation'', JStr ''getchallenge''), (''username'', JStr (username c))]"

text \<open>The parameter values a request carries, as text.\<close>

fun param_values :: "request \<Rightarrow> string list" where
  "param_values (Get u params) = map (\<lambda>kv. js_to_string (snd kv)) params"
| "param_values (Post u body headers) = map snd body"

text \<open>
  Stub transports: one that answers every request with the same body, one that is
  offline, and one that answers the GET of the handshake with one body and the POST with
  another. \<open>stub_md5\<close> stands in for the digest where a run needs a concrete one.
\<close>

definition stub_reply :: "jsval \<Rightarrow> transport" where
  "stub_reply d sent req = Inr d"

definition stub_offline :: transport where
  "stub_offline sent req = Inl (AxiosError ''Network Error'')"

definition stub_crm :: "jsval \<Rightarrow> jsval \<Rightarrow> transport" where
  "stub_crm challenge answer sent req =
     (case req of Get u params \<Rightarrow> Inr challenge | Post u body headers \<Rightarrow> Inr answer)"

definition stub_md5 :: "string \<Rightarrow> string" where
  "stub_md5 s = ''md5('' @ s @ '')''"

text \<open>A client for the example runs, before and after a login.\<close>

definition example_client :: client where
  "example_client = VtigerApiClient ''https://crm.example'' ''admin'' ''key''"

definition example_session :: client where
  "example_session = example_client\<lparr>sessionId := JStr ''s1'', user := JObj [(''sessionName'', JStr ''s1''), (''userId'', JStr ''19x5'')], userId := JStr ''19x5''\<rparr>"

section \<open>Properties of the module resolver\<close>

lemma module_table_rows:
  "\<forall>(k, i, n) \<in> set spec_module_table. getModuleId k = JNum i \<and> getModuleName k = JStr n"
  by (simp add: getModuleId_def getModuleName_def spec_module_table_def)

lemma module_table_row:
  "(k, i, n) \<in> set spec_module_table \<Longrightarrow> getModuleId k = JNum i \<and> getModuleName k = JStr n"
  using module_table_rows by fast

lemma unknown_module:
  "k \<notin> set VtigerModule \<Longrightarrow> getModuleId k = JNull \<and> getModuleName k = JNull"
  by (simp add: getModuleId_def getModuleName_def VtigerModule_def)

lemma table_keys:
  "set (map fst spec_module_table) = set VtigerModule"
  by (simp add: spec_module_table_def VtigerModule_def insert_commute)

lemma table_size:
  "length spec_module_table = 22 \<and> length VtigerModule = 22 \<and> distinct VtigerModule"
  by (simp add: spec_module_table_def VtigerModule_def)

text \<open>
  Claim C2. For each of the 22 rows of the specification's table, \<open>getModuleId\<close> and
  \<open>getModuleName\<close> return the row's numeric ID and name; the rows' keys are the 22
  distinct keys of \<open>VtigerModule\<close>; \<open>calendar\<close> and \<open>helpdesk\<close> both have the ID 9;
  and for every other key both functions return \<open>null\<close>.
\<close>

theorem module_resolver_table:
  "(\<forall>(k, i, n) \<in> set spec_module_table. getModuleId k = JNum i \<and> getModuleName k = JStr n)
   \<and> set (map fst spec_module_table) = set VtigerModule
   \<and> length spec_module_table = 22 \<and> length VtigerModule = 22 \<and> distinct VtigerModule
   \<and> getModuleId ''calendar'' = JNum 9 \<and> getModuleId ''helpdesk'' = JNum 9
   \<and> (\<forall>k. k \<notin> set VtigerModule \<longrightarrow> getModuleId k = JNull \<and> getModuleName k = JNull)"
proof (intro conjI allI impI)
  show "\<forall>(k, i, n) \<in> set spec_module_table. getModuleId k = JNum i \<and> getModuleName k = JStr n"
    by (rule module_table_rows)
  show "set (map fst spec_module_table) = set VtigerModule"
    by (rule table_keys)
  show "length spec_module_table = 22" "length VtigerModule = 22" "distinct VtigerModule"
    using table_size by simp_all
  show "getModuleId ''calendar'' = JNum 9" "getModuleId ''helpdesk'' = JNum 9"
    by (simp_all add: getModuleId_def)
  show "getModuleId k = JNull" "getModuleName k = JNull" if "k \<notin> set VtigerModule" for k
    using unknown_module [OF that] by simp_all
qed

theorem module_resolver_table_witness:
  "(''contacts'', 4, ''Contacts'') \<in> set spec_module_table
   \<and> getModuleId ''contacts'' = JNum 4 \<and> getModuleName ''contacts'' = JStr ''Contacts''
   \<and> ''bogus'' \<notin> set VtigerModule
   \<and> getModuleId ''bogus'' = JNull \<and> getModuleName ''bogus'' = JNull"
proof -
  have row: "(''contacts'', 4, ''Contacts'') \<in> set spec_module_table"
    by (simp add: spec_module_table_def)
  have out: "''bogus'' \<notin> set VtigerModule"
    by (simp add: VtigerModule_def)
  have rows: "\<forall>(k, i, n) \<in> set spec_module_table. getModuleId k = JNum i \<and> getModuleName k = JStr n"
    and others: "\<forall>k. k \<notin> set VtigerModule \<longrightarrow> getModuleId k = JNull \<and> getModuleName k = JNull"
    using module_resolver_table by simp_all
  from rows row have "getModuleId ''contacts'' = JNum 4 \<and> getModuleName ''contacts'' = JStr ''Contacts''"
    by fast
  moreover from others out have "getModuleId ''bogus'' = JNull \<and> getModuleName ''bogus'' = JNull"
    by simp
  ultimately show ?thesis using row out by simp
qed

section \<open>Properties of the session manager\<close>

lemma js_get_other: "js_get v p = Inr x \<Longrightarrow> \<exists>y. js_get v q = Inr y"
  by (cases v) simp_all

lemma js_get2_parts:
  "js_get2 v p q = Inr x \<longleftrightarrow> (\<exists>w. js_get v p = Inr w \<and> js_get w q = Inr x)"
  by (auto simp add: js_get2_def split: sum.splits)

lemma getChallenge_ok:
  assumes "http sent (challenge_request c) = Inr d"
      and "js_get d ''success'' = Inr s" and "truthy s"
  shows "getChallenge http c sent = (Resolved d, c, sent @ [challenge_request c])"
  using assms by (simp add: getChallenge_def axios_get_def challenge_request_def)

lemma getChallenge_refused:
  assumes "http sent (challenge_request c) = Inr d"
      and "js_get d ''success'' = Inr s" and "\<not> truthy s"
  shows "getChallenge http c sent =
           (Rejected (JsError (js_to_string
              (js_or (js_get_opt (js_get_opt d ''error'') ''message'') (JStr ''Operation failed: getchallenge'')))),
            c, sent @ [challenge_request c])"
proof -
  from assms(2) obtain e where e: "js_get d ''error'' = Inr e"
    using js_get_other by blast
  then have "js_get_opt d ''error'' = e" by (simp add: js_get_opt_def)
  with assms e show ?thesis
    by (simp add: getChallenge_def axios_get_def challenge_request_def)
qed

lemma getChallenge_frame:
  "getChallenge http c sent = (out, c', sent') \<Longrightarrow> c' = c \<and> sent' = sent @ [challenge_request c]"
  by (auto simp add: getChallenge_def axios_get_def challenge_request_def split: sum.splits if_splits)

lemma example_client_fields:
  "webserviceUrl example_client = ''https://crm.example/webservice.php''"
  "username example_client = ''admin''"
  "accessKey example_client = ''key''"
  "sessionId example_client = JNull"
  "userId example_client = JNull"
  by (simp_all add: example_client_def VtigerApiClient_def)

lemma example_session_fields:
  "webserviceUrl example_session = ''https://crm.example/webservice.php''"
  "sessionId example_session = JStr ''s1''"
  "userId example_session = JStr ''19x5''"
  by (simp_all add: example_session_def example_client_def VtigerApiClient_def)

text \<open>
  Claim C1. When the challenge step succeeds with the token \<open>T\<close>, the requests of
  \<open>login\<close> are the challenge GET and one POST to the same URL, form-encoded, whose
  parameters are \<open>operation=login\<close>, the configured username, and \<open>accessKey\<close> equal to
  the digest of \<open>T\<close> followed by the configured access key. Unless the access key is
  itself equal to the username, to the digest or to an operation name, it is not among
  the parameter values sent.
\<close>

theorem login_posts_digest:
  assumes "http sent (challenge_request c) = Inr d"
      and "js_get d ''success'' = Inr s" and "truthy s"
      and "js_get2 d ''result'' ''token'' = Inr (JStr T)"
  shows "snd (snd (login http md5 c sent)) =
           sent @ [challenge_request c,
                   Post (webserviceUrl c)
                     [(''operation'', ''login''), (''username'', username c),
                      (''accessKey'', md5 (T @ accessKey c))]
                     [(''Content-Type'', ''application/x-www-form-urlencoded'')]]
       \<and> (accessKey c \<notin> {''getchallenge'', ''login'', username c, md5 (T @ accessKey c)} \<longrightarrow>
            accessKey c \<notin> set (concat (map param_values
                                (drop (length sent) (snd (snd (login http md5 c sent)))))))"
proof -
  have 1: "snd (snd (login http md5 c sent)) =
           sent @ [challenge_request c,
                   Post (webserviceUrl c)
                     [(''operation'', ''login''), (''username'', username c),
                      (''accessKey'', md5 (T @ accessKey c))]
                     [(''Content-Type'', ''application/x-www-form-urlencoded'')]]"
    using getChallenge_ok [of http sent c d s] assms
    by (simp add: login_def axios_post_def usp_append_def form_config_def Let_def split: sum.splits)
  have 2: "accessKey c \<notin> set (concat (map param_values
                                (drop (length sent) (snd (snd (login http md5 c sent))))))"
    if "accessKey c \<notin> {''getchallenge'', ''login'', username c, md5 (T @ accessKey c)}"
    using that by (simp add: 1 challenge_request_def)
  from 1 2 show ?thesis by (intro conjI impI)
qed

theorem login_posts_digest_witness:
  "stub_crm (JObj [(''success'', JBool True), (''result'', JObj [(''token'', JStr ''abc'')])])
            (JObj [(''success'', JBool True)]) [] (challenge_request example_client)
     = Inr (JObj [(''success'', JBool True), (''result'', JObj [(''token'', JStr ''abc'')])])
   \<and> js_get (JObj [(''success'', JBool True), (''result'', JObj [(''token'', JStr ''abc'')])]) ''success''
       = Inr (JBool True)
   \<and> truthy (JBool True)
   \<and> js_get2 (JObj [(''success'', JBool True), (''result'', JObj [(''token'', JStr ''abc'')])])
         ''result'' ''token'' = Inr (JStr ''abc'')
   \<and> ''key'' \<notin> {''getchallenge'', ''login'', ''admin'', stub_md5 ''abckey''}
   \<and> snd (snd (login (stub_crm (JObj [(''success'', JBool True), (''result'', JObj [(''token'', JStr ''abc'')])])
                                (JObj [(''success'', JBool True)]))
                stub_md5 example_client [])) =
       [Get ''https://crm.example/webservice.php''
          [(''operation'', JStr ''getchallenge''), (''username'', JStr ''admin'')],
        Post ''https://crm.example/webservice.php''
          [(''operation'', ''login''), (''username'', ''admin''), (''accessKey'', ''md5(abckey)'')]
          [(''Content-Type'', ''application/x-www-form-urlencoded'')]]
   \<and> ''key'' \<notin> set (concat (map param_values
         (snd (snd (login (stub_crm (JObj [(''success'', JBool True), (''result'', JObj [(''token'', JStr ''abc'')])])
                                    (JObj [(''success'', JBool True)]))
                    stub_md5 example_client [])))))"
proof -
  let ?d = "JObj [(''success'', JBool True), (''result'', JObj [(''token'', JStr ''abc'')])]"
  let ?http = "stub_crm ?d (JObj [(''success'', JBool True)])"
  have h1: "?http [] (challenge_request example_client) = Inr ?d"
    by (simp add: stub_crm_def challenge_request_def)
  have h2: "js_get ?d ''success'' = Inr (JBool True)" by simp
  have h3: "truthy (JBool True)" by simp
  have h4: "js_get2 ?d ''result'' ''token'' = Inr (JStr ''abc'')" by (simp add: js_get2_def)
  have h5: "''key'' \<notin> {''getchallenge'', ''login'', ''admin'', stub_md5 ''abckey''}"
    by (simp add: stub_md5_def)
  from login_posts_digest [of ?http "[]" example_client ?d "JBool True" "''abc''" stub_md5, OF h1 h2 h3 h4]
  show ?thesis
    using h1 h2 h3 h4 h5 by (simp add: example_client_fields challenge_request_def stub_md5_def)
qed

text \<open>
  Claim C4. When the challenge response has a falsy \<open>success\<close> (\<open>success: false\<close>),
  \<open>login\<close> makes the challenge GET and no other request, leaves the client as it was,
  and rejects with the message of the response's \<open>error\<close> when that is a non-empty
  string, and with \<open>Operation failed: getchallenge\<close> when the response has no error, or
  an error with no message or an empty one.
\<close>

theorem login_challenge_refused:
  assumes "http sent (challenge_request c) = Inr d"
      and "js_get d ''success'' = Inr s" and "\<not> truthy s"
  shows "snd (login http md5 c sent) = (c, sent @ [challenge_request c])
       \<and> (\<forall>m. js_get_opt (js_get_opt d ''error'') ''message'' = JStr m \<and> m \<noteq> [] \<longrightarrow>
              fst (login http md5 c sent) = Rejected (Message m))
       \<and> (\<not> truthy (js_get_opt (js_get_opt d ''error'') ''message'') \<longrightarrow>
              fst (login http md5 c sent) = Rejected (Message ''Operation failed: getchallenge''))"
  using getChallenge_refused [of http sent c d s] assms
  by (simp add: login_def message_or_error_def js_or_def)

theorem login_challenge_refused_witness:
  "login (stub_reply (JObj [(''success'', JBool False),
                            (''error'', JObj [(''code'', JStr ''AUTH_REQUIRED''), (''message'', JStr ''Unknown user'')])]))
         stub_md5 example_client [] =
     (Rejected (Message ''Unknown user''), example_client,
      [Get ''https://crm.example/webservice.php''
         [(''operation'', JStr ''getchallenge''), (''username'', JStr ''admin'')]])
   \<and> login (stub_reply (JObj [(''success'', JBool False)])) stub_md5 example_client [] =
     (Rejected (Message ''Operation failed: getchallenge''), example_client,
      [Get ''https://crm.example/webservice.php''
         [(''operation'', JStr ''getchallenge''), (''username'', JStr ''admin'')]])"
proof -
  let ?d1 = "JObj [(''success'', JBool False),
                   (''error'', JObj [(''code'', JStr ''AUTH_REQUIRED''), (''message'', JStr ''Unknown user'')])]"
  let ?d2 = "JObj [(''success'', JBool False)]"
  have a1: "stub_reply ?d1 [] (challenge_request example_client) = Inr ?d1"
    and a2: "stub_reply ?d2 [] (challenge_request example_client) = Inr ?d2"
    by (simp_all add: stub_reply_def)
  have b1: "js_get ?d1 ''success'' = Inr (JBool False)"
    and b2: "js_get ?d2 ''success'' = Inr (JBool False)"
    by simp_all
  have f: "\<not> truthy (JBool False)" by simp
  have m1: "js_get_opt (js_get_opt ?d1 ''error'') ''message'' = JStr ''Unknown user''"
    and m2: "js_get_opt (js_get_opt ?d2 ''error'') ''message'' = JUndefined"
    by (simp_all add: js_get_opt_def)
  from login_challenge_refused [of "stub_reply ?d1" "[]" example_client ?d1 "JBool False" stub_md5, OF a1 b1 f]
  have r1: "login (stub_reply ?d1) stub_md5 example_client [] =
              (Rejected (Message ''Unknown user''), example_client, [challenge_request example_client])"
    using m1 by (simp add: prod_eq_iff)
  from login_challenge_refused [of "stub_reply ?d2" "[]" example_client ?d2 "JBool False" stub_md5, OF a2 b2 f]
  have r2: "login (stub_reply ?d2) stub_md5 example_client [] =
              (Rejected (Message ''Operation failed: getchallenge''), example_client,
               [challenge_request example_client])"
    using m2 by (simp add: prod_eq_iff)
  from r1 r2 show ?thesis
    by (simp add: challenge_request_def example_client_fields)
qed

text \<open>
  Claim C5, as the code has it. Whatever the transport does, a run of \<open>login\<close> that
  rejects returns the client with every field as before the call, and a run that resolves
  returns the decoded body \<open>d\<close> of the login POST itself, with \<open>sessionId\<close>,
  \<open>userId\<close> and \<open>user\<close> set to \<open>d.result.sessionName\<close>, \<open>d.result.userId\<close> and
  \<open>d.result\<close> and no other field changed. A run resolves only when \<open>d.result\<close> is
  neither \<open>undefined\<close> nor \<open>null\<close>; \<open>login\<close> checks neither \<open>success\<close> nor the
  fields of \<open>result\<close>, so a field that \<open>result\<close> lacks is stored as \<open>undefined\<close>.
\<close>

theorem login_atomic:
  assumes "login http md5 c sent = (outcome, c', sent')"
  shows "(\<forall>r. outcome = Rejected r \<longrightarrow> c' = c)
       \<and> (\<forall>d. outcome = Resolved d \<longrightarrow>
            (\<exists>result sn uid.
               js_get d ''result'' = Inr result \<and> js_get result ''sessionName'' = Inr sn
               \<and> js_get result ''userId'' = Inr uid
               \<and> c' = c\<lparr>sessionId := sn, user := result, userId := uid\<rparr>
               \<and> sent' \<noteq> [] \<and> http (butlast sent') (last sent') = Inr d))"
proof -
  obtain o1 c1 s1 where g: "getChallenge http c sent = (o1, c1, s1)"
    by (cases "getChallenge http c sent") auto
  then have c1: "c1 = c" using getChallenge_frame by blast
  show ?thesis
  proof (cases o1)
    case (Rejected e)
    with g c1 assms show ?thesis by (auto simp add: login_def)
  next
    case (Resolved ch)
    show ?thesis
    proof (cases "js_get2 ch ''result'' ''token''")
      case (Inl e)
      with Resolved g c1 assms show ?thesis by (auto simp add: login_def)
    next
      case (Inr tok)
      define req where "req = Post (webserviceUrl c)
          (usp_append (usp_append (usp_append [] ''operation'' (JStr ''login''))
             ''username'' (JStr (username c))) ''accessKey'' (JStr (md5 (js_to_string tok @ accessKey c))))
          form_config"
      show ?thesis
      proof (cases "http s1 req")
        case (Inl e)
        with Inr Resolved g c1 assms show ?thesis
          by (auto simp add: login_def axios_post_def Let_def req_def)
      next
        case post: (Inr data)
        show ?thesis
        proof (cases "js_get2 data ''result'' ''sessionName''")
          case (Inl e)
          with post Inr Resolved g c1 assms show ?thesis
            by (auto simp add: login_def axios_post_def Let_def req_def)
        next
          case sn: (Inr v1)
          then obtain result where r: "js_get data ''result'' = Inr result"
            and v1: "js_get result ''sessionName'' = Inr v1"
            by (auto simp add: js_get2_parts)
          from v1 obtain v2 where v2: "js_get result ''userId'' = Inr v2"
            using js_get_other by blast
          with r have uid: "js_get2 data ''result'' ''userId'' = Inr v2"
            by (simp add: js_get2_def)
          from sn uid r v1 v2 post Inr Resolved g c1 assms show ?thesis
            by (auto simp add: login_def axios_post_def Let_def req_def)
        qed
      qed
    qed
  qed
qed

theorem login_atomic_witness:
  "login stub_offline stub_md5 example_session [] =
     (Rejected (Message ''Network Error''), example_session,
      [Get ''https://crm.example/webservice.php''
         [(''operation'', JStr ''getchallenge''), (''username'', JStr ''admin'')]])
   \<and> login (stub_crm (JObj [(''success'', JBool True), (''result'', JObj [(''token'', JStr ''abc'')])])
                      (JObj [(''success'', JBool False), (''error'', JObj [(''message'', JStr ''Invalid key'')])]))
        stub_md5 example_session [] =
     (Rejected (Message ''Cannot read properties of undefined (reading 'sessionName')''), example_session,
      [Get ''https://crm.example/webservice.php''
         [(''operation'', JStr ''getchallenge''), (''username'', JStr ''admin'')],
       Post ''https://crm.example/webservice.php''
         [(''operation'', ''login''), (''username'', ''admin''), (''accessKey'', ''md5(abckey)'')]
         form_config])
   \<and> login (stub_crm (JObj [(''success'', JBool True), (''result'', JObj [(''token'', JStr ''abc'')])])
                      (JObj [(''success'', JBool True),
                             (''result'', JObj [(''sessionName'', JStr ''s2''), (''userId'', JStr ''19x1'')])]))
        stub_md5 example_client [] =
     (Resolved (JObj [(''success'', JBool True),
                      (''result'', JObj [(''sessionName'', JStr ''s2''), (''userId'', JStr ''19x1'')])]),
      example_client\<lparr>sessionId := JStr ''s2'',
                     user := JObj [(''sessionName'', JStr ''s2''), (''userId'', JStr ''19x1'')],
                     userId := JStr ''19x1''\<rparr>,
      [Get ''https://crm.example/webservice.php''
         [(''operation'', JStr ''getchallenge''), (''username'', JStr ''admin'')],
       Post ''https://crm.example/webservice.php''
         [(''operation'', ''login''), (''username'', ''admin''), (''accessKey'', ''md5(abckey)'')]
         form_config])"
proof -
  let ?ch = "JObj [(''success'', JBool True), (''result'', JObj [(''token'', JStr ''abc'')])]"
  let ?no = "JObj [(''success'', JBool False), (''error'', JObj [(''message'', JStr ''Invalid key'')])]"
  let ?res = "JObj [(''sessionName'', JStr ''s2''), (''userId'', JStr ''19x1'')]"
  let ?ok = "JObj [(''success'', JBool True), (''result'', ?res)]"
  let ?get = "Get ''https://crm.example/webservice.php''
                [(''operation'', JStr ''getchallenge''), (''username'', JStr ''admin'')]"
  let ?post = "Post ''https://crm.example/webservice.php''
                 [(''operation'', ''login''), (''username'', ''admin''), (''accessKey'', ''md5(abckey)'')]
                 form_config"
  have s: "webserviceUrl example_session = ''https://crm.example/webservice.php''"
      "username example_session = ''admin''" "accessKey example_session = ''key''"
    by (simp_all add: example_session_def example_client_def VtigerApiClient_def)
  obtain o1 c1 l1 where r1: "login stub_offline stub_md5 example_session [] = (o1, c1, l1)"
    by (cases "login stub_offline stub_md5 example_session []") auto
  have e1: "o1 = Rejected (Message ''Network Error'') \<and> l1 = [?get]"
    using r1 by (simp add: login_def getChallenge_def axios_get_def stub_offline_def
        message_or_error_def s prod_eq_iff)
  from login_atomic [OF r1] e1 have k1: "c1 = example_session" by simp
  obtain o2 c2 l2 where r2: "login (stub_crm ?ch ?no) stub_md5 example_session [] = (o2, c2, l2)"
    by (cases "login (stub_crm ?ch ?no) stub_md5 example_session []") auto
  have e2: "o2 = Rejected (Message ''Cannot read properties of undefined (reading 'sessionName')'')
            \<and> l2 = [?get, ?post]"
    using r2 by (simp add: login_def getChallenge_def axios_get_def axios_post_def stub_crm_def
        usp_append_def js_get2_def cannot_read_def stub_md5_def message_or_error_def s prod_eq_iff Let_def)
  from login_atomic [OF r2] e2 have k2: "c2 = example_session" by simp
  obtain o3 c3 l3 where r3: "login (stub_crm ?ch ?ok) stub_md5 example_client [] = (o3, c3, l3)"
    by (cases "login (stub_crm ?ch ?ok) stub_md5 example_client []") auto
  have e3: "o3 = Resolved ?ok \<and> l3 = [?get, ?post]"
    using r3 by (simp add: login_def getChallenge_def axios_get_def axios_post_def stub_crm_def
        usp_append_def js_get2_def stub_md5_def example_client_fields prod_eq_iff Let_def)
  from login_atomic [OF r3] e3
  have k3: "c3 = example_client\<lparr>sessionId := JStr ''s2'', user := ?res, userId := JStr ''19x1''\<rparr>"
    by auto
  from r1 e1 k1 r2 e2 k2 r3 e3 k3 show ?thesis by simp
qed

text \<open>
  The claim C5 as stated counts a response without the expected fields among the failing
  runs. On a client that holds the session \<open>s1\<close>, a login response whose \<open>result\<close> has
  a \<open>userId\<close> and no \<open>sessionName\<close> resolves, and the session identifier held before
  is replaced by \<open>undefined\<close>.
\<close>

theorem login_missing_fields_counterexample:
  "sessionId example_session = JStr ''s1''
   \<and> login (stub_crm (JObj [(''success'', JBool True), (''result'', JObj [(''token'', JStr ''abc'')])])
                      (JObj [(''success'', JBool True), (''result'', JObj [(''userId'', JStr ''19x9'')])]))
        stub_md5 example_session [] =
     (Resolved (JObj [(''success'', JBool True), (''result'', JObj [(''userId'', JStr ''19x9'')])]),
      example_session\<lparr>sessionId := JUndefined,
                      user := JObj [(''userId'', JStr ''19x9'')],
                      userId := JStr ''19x9''\<rparr>,
      [Get ''https://crm.example/webservice.php''
         [(''operation'', JStr ''getchallenge''), (''username'', JStr ''admin'')],
       Post ''https://crm.example/webservice.php''
         [(''operation'', ''login''), (''username'', ''admin''), (''accessKey'', ''md5(abckey)'')]
         form_config])"
  by (simp add: login_def getChallenge_def axios_get_def axios_post_def stub_crm_def
      usp_append_def js_get2_def stub_md5_def Let_def
      example_session_def example_client_def VtigerApiClient_def)

text \<open>
  Claim C9. \<open>logout\<close> makes one form-encoded POST with \<open>operation=logout\<close> and the
  current session identifier as \<open>sessionName\<close>, and whether the transport fails or
  answers, the client it returns is the client it was given: \<open>sessionId\<close>, \<open>userId\<close>,
  \<open>user\<close> and every other field keep their values.
\<close>

theorem logout_keeps_session:
  "logout http c sent =
     (settle (http sent (Post (webserviceUrl c)
                [(''operation'', ''logout''), (''sessionName'', js_to_string (sessionId c))]
                [(''Content-Type'', ''application/x-www-form-urlencoded'')])),
      c,
      sent @ [Post (webserviceUrl c)
                [(''operation'', ''logout''), (''sessionName'', js_to_string (sessionId c))]
                [(''Content-Type'', ''application/x-www-form-urlencoded'')]])
   \<and> snd (logout http (c\<lparr>sessionId := JStr s\<rparr>) sent) =
       (c\<lparr>sessionId := JStr s\<rparr>,
        sent @ [Post (webserviceUrl c) [(''operation'', ''logout''), (''sessionName'', s)]
                  [(''Content-Type'', ''application/x-www-form-urlencoded'')]])"
  by (simp add: logout_def axios_post_def usp_append_def form_config_def Let_def)

section \<open>Properties of the operation dispatcher\<close>

lemma map_of_obj_set: "map_of (obj_set p v kvs) = (map_of kvs)(p \<mapsto> v)"
  by (induction kvs) auto

lemma obj_set_same: "map_of kvs p = Some v \<Longrightarrow> obj_set p v kvs = kvs"
  by (induction kvs) (auto split: if_splits)

lemma obj_set_absent: "map_of kvs p = None \<Longrightarrow> obj_set p v kvs = kvs @ [(p, v)]"
  by (induction kvs) (auto split: if_splits)

lemma obj_set_present:
  "p \<notin> fst ` set pre \<Longrightarrow> obj_set p v (pre @ (p, old) # post) = pre @ (p, v) # post"
  by (induction pre) auto

lemma map_of_present:
  "p \<notin> fst ` set pre \<Longrightarrow> map_of (pre @ (p, old) # post) p = Some old"
  by (induction pre) auto

lemma create_object_absent:
  "map_of kvs ''assigned_user_id'' = None \<Longrightarrow>
   create http stringify c m (JObj kvs) sent =
     (settle (http sent (Post (webserviceUrl c)
        [(''operation'', ''create''), (''sessionName'', js_to_string (sessionId c)),
         (''element'', stringify (JObj (kvs @ [(''assigned_user_id'', userId c)]))),
         (''elementType'', js_to_string (getModuleName m))] form_config)),
      c,
      sent @ [Post (webserviceUrl c)
        [(''operation'', ''create''), (''sessionName'', js_to_string (sessionId c)),
         (''element'', stringify (JObj (kvs @ [(''assigned_user_id'', userId c)]))),
         (''elementType'', js_to_string (getModuleName m))] form_config])"
  by (simp add: create_def axios_post_def usp_append_def Let_def js_or_def obj_set_absent)

lemma create_object_present:
  "''assigned_user_id'' \<notin> fst ` set pre \<Longrightarrow>
   create http stringify c m (JObj (pre @ (''assigned_user_id'', old) # post)) sent =
     (settle (http sent (Post (webserviceUrl c)
        [(''operation'', ''create''), (''sessionName'', js_to_string (sessionId c)),
         (''element'', stringify (JObj (pre @ (''assigned_user_id'', if truthy old then old else userId c) # post))),
         (''elementType'', js_to_string (getModuleName m))] form_config)),
      c,
      sent @ [Post (webserviceUrl c)
        [(''operation'', ''create''), (''sessionName'', js_to_string (sessionId c)),
         (''element'', stringify (JObj (pre @ (''assigned_user_id'', if truthy old then old else userId c) # post))),
         (''elementType'', js_to_string (getModuleName m))] form_config])"
  by (simp add: create_def axios_post_def usp_append_def Let_def js_or_def obj_set_present map_of_present
      del: map_of_append)

lemma create_no_object:
  "create http stringify c m JUndefined sent =
     (Rejected (JsTypeError ''Cannot read properties of undefined (reading 'assigned_user_id')''), c, sent)"
  "create http stringify c m JNull sent =
     (Rejected (JsTypeError ''Cannot read properties of null (reading 'assigned_user_id')''), c, sent)"
  by (simp_all add: create_def cannot_read_def)

lemma update_object_absent:
  "map_of kvs ''id'' = None \<Longrightarrow>
   update http stringify c m n (JObj kvs) sent =
     (settle (http sent (Post (webserviceUrl c)
        [(''operation'', ''update''), (''sessionName'', js_to_string (sessionId c)),
         (''element'', stringify (JObj (kvs @ [(''id'', JStr (js_to_string (getModuleId m) @ ''x'' @ show_int n))])))]
        form_config)),
      c,
      sent @ [Post (webserviceUrl c)
        [(''operation'', ''update''), (''sessionName'', js_to_string (sessionId c)),
         (''element'', stringify (JObj (kvs @ [(''id'', JStr (js_to_string (getModuleId m) @ ''x'' @ show_int n))])))]
        form_config])"
  by (simp add: update_def axios_post_def usp_append_def Let_def obj_set_absent)

lemma update_object_present:
  "''id'' \<notin> fst ` set pre \<Longrightarrow>
   update http stringify c m n (JObj (pre @ (''id'', old) # post)) sent =
     (settle (http sent (Post (webserviceUrl c)
        [(''operation'', ''update''), (''sessionName'', js_to_string (sessionId c)),
         (''element'', stringify (JObj (pre @ (''id'', JStr (js_to_string (getModuleId m) @ ''x'' @ show_int n)) # post)))]
        form_config)),
      c,
      sent @ [Post (webserviceUrl c)
        [(''operation'', ''update''), (''sessionName'', js_to_string (sessionId c)),
         (''element'', stringify (JObj (pre @ (''id'', JStr (js_to_string (getModuleId m) @ ''x'' @ show_int n)) # post)))]
        form_config])"
  by (simp add: update_def axios_post_def usp_append_def Let_def obj_set_present)

lemma update_no_object:
  "update http stringify c m n JUndefined sent =
     (Rejected (JsTypeError ''Cannot set properties of undefined (setting 'id')''), c, sent)"
  "update http stringify c m n JNull sent =
     (Rejected (JsTypeError ''Cannot set properties of null (setting 'id')''), c, sent)"
  by (simp_all add: update_def cannot_set_def)

lemma show_int_examples:
  "show_int 4 = ''4''" "show_int 7 = ''7''" "show_int 42 = ''42''" "show_int 3 = ''3''"
  by (simp_all add: show_int_def digits.simps)

lemma safe_integer_examples:
  "safe_integer 3" "safe_integer 7" "safe_integer 42"
  by (simp_all add: safe_integer_def)

lemma example_rows:
  "(''contacts'', 4, ''Contacts'') \<in> set spec_module_table"
  "(''documents'', 7, ''Documents'') \<in> set spec_module_table"
  by (simp_all add: spec_module_table_def)

lemma example_modules:
  "getModuleId ''contacts'' = JNum 4" "getModuleName ''contacts'' = JStr ''Contacts''"
  "getModuleId ''documents'' = JNum 7" "getModuleName ''documents'' = JStr ''Documents''"
  "''widgets'' \<notin> set VtigerModule"
  by (simp_all add: getModuleId_def getModuleName_def VtigerModule_def)

text \<open>
  Claim C7. For a module key of the table, with the numeric ID \<open>i\<close>, and a record number
  \<open>n\<close>, \<open>retrieve\<close> makes exactly one GET, with \<open>operation=retrieve\<close>, the current
  session identifier as \<open>sessionName\<close> and \<open>id\<close> equal to the decimal digits of \<open>i\<close>,
  the letter x and the decimal digits of \<open>n\<close>. The same text is the \<open>id\<close> of the
  element that \<open>update\<close> posts (added last to a \<open>data\<close> object without an \<open>id\<close>,
  put in the place of the \<open>id\<close> it has otherwise) and the \<open>id\<close>, \<open>sourceRecordId\<close>
  and \<open>relatedRecordId\<close> of \<open>delete\<close>, \<open>retrieveRelated\<close>, \<open>queryRelated\<close>,
  \<open>deleteRelated\<close> and \<open>addRelated\<close>.
\<close>

theorem record_reference_format:
  assumes "(m, i, name) \<in> set spec_module_table" and "(m', i', name') \<in> set spec_module_table"
      and "safe_integer n" and "safe_integer n'"
  shows "retrieve http c m n sent =
           (settle (http sent (Get (webserviceUrl c)
              [(''operation'', JStr ''retrieve''), (''sessionName'', sessionId c),
               (''id'', JStr (show_int i @ ''x'' @ show_int n))])),
            c,
            sent @ [Get (webserviceUrl c)
              [(''operation'', JStr ''retrieve''), (''sessionName'', sessionId c),
               (''id'', JStr (show_int i @ ''x'' @ show_int n))]])
       \<and> (map_of kvs ''id'' = None \<longrightarrow>
            snd (snd (update http stringify c m n (JObj kvs) sent)) =
              sent @ [Post (webserviceUrl c)
                 [(''operation'', ''update''), (''sessionName'', js_to_string (sessionId c)),
                  (''element'', stringify (JObj (kvs @ [(''id'', JStr (show_int i @ ''x'' @ show_int n))])))]
                 form_config])
       \<and> (''id'' \<notin> fst ` set pre \<longrightarrow>
            snd (snd (update http stringify c m n (JObj (pre @ (''id'', old) # post)) sent)) =
              sent @ [Post (webserviceUrl c)
                 [(''operation'', ''update''), (''sessionName'', js_to_string (sessionId c)),
                  (''element'',
                   stringify (JObj (pre @ (''id'', JStr (show_int i @ ''x'' @ show_int n)) # post)))]
                 form_config])
       \<and> snd (snd (delete http c m n sent)) =
           sent @ [Post (webserviceUrl c)
              [(''operation'', ''delete''), (''sessionName'', js_to_string (sessionId c)),
               (''id'', show_int i @ ''x'' @ show_int n)]
              form_config]
       \<and> snd (snd (retrieveRelated http c m n related label sent)) =
           sent @ [Get (webserviceUrl c)
              [(''operation'', JStr ''retrieve_related''), (''sessionName'', sessionId c),
               (''id'', JStr (show_int i @ ''x'' @ show_int n)),
               (''relatedLabel'', JStr label), (''relatedType'', getModuleName related)]]
       \<and> snd (snd (queryRelated http c m n label sent)) =
           sent @ [Get (webserviceUrl c)
              [(''operation'', JStr ''query_related''), (''sessionName'', sessionId c),
               (''query'', JStr (''SELECT * FROM '' @ name)),
               (''id'', JStr (show_int i @ ''x'' @ show_int n)),
               (''relatedLabel'', JStr label)]]
       \<and> snd (snd (deleteRelated http c m n m' n' sent)) =
           sent @ [Post (webserviceUrl c)
              [(''operation'', ''delete_related''), (''sessionName'', js_to_string (sessionId c)),
               (''sourceRecordId'', show_int i @ ''x'' @ show_int n),
               (''relatedRecordId'', show_int i' @ ''x'' @ show_int n')]
              form_config]
       \<and> snd (snd (addRelated http c m n m' n' label sent)) =
           sent @ [Post (webserviceUrl c)
              [(''operation'', ''add_related''), (''sessionName'', js_to_string (sessionId c)),
               (''sourceRecordId'', show_int i @ ''x'' @ show_int n),
               (''relatedRecordId'', show_int i' @ ''x'' @ show_int n'),
               (''relationIdLabel'', label)]
              form_config]"
  using module_table_row [OF assms(1)] module_table_row [OF assms(2)]
  by (simp add: retrieve_def update_object_absent update_object_present delete_def
      retrieveRelated_def queryRelated_def deleteRelated_def addRelated_def
      axios_get_def axios_post_def usp_append_def Let_def)

theorem record_reference_format_witness:
  "(''contacts'', 4, ''Contacts'') \<in> set spec_module_table
   \<and> (''documents'', 7, ''Documents'') \<in> set spec_module_table
   \<and> safe_integer 42 \<and> safe_integer 3
   \<and> retrieve (stub_reply (JObj [(''success'', JBool True)])) example_session ''contacts'' 42 [] =
       (Resolved (JObj [(''success'', JBool True)]),
        example_session,
        [Get ''https://crm.example/webservice.php''
           [(''operation'', JStr ''retrieve''), (''sessionName'', JStr ''s1''), (''id'', JStr ''4x42'')]])
   \<and> map_of [(''lastname'', JStr ''Doe'')] ''id'' = None
   \<and> snd (snd (update stub_offline JSON_stringify example_session ''contacts'' 42
                  (JObj [(''lastname'', JStr ''Doe'')]) [])) =
       [Post ''https://crm.example/webservice.php''
          [(''operation'', ''update''), (''sessionName'', ''s1''),
           (''element'', JSON_stringify (JObj [(''lastname'', JStr ''Doe''), (''id'', JStr ''4x42'')]))]
          form_config]
   \<and> ''id'' \<notin> fst ` set [(''lastname'', JStr ''Doe'')]
   \<and> snd (snd (update stub_offline JSON_stringify example_session ''contacts'' 42
                  (JObj [(''lastname'', JStr ''Doe''), (''id'', JStr ''9x1''), (''phone'', JStr ''555'')]) [])) =
       [Post ''https://crm.example/webservice.php''
          [(''operation'', ''update''), (''sessionName'', ''s1''),
           (''element'', JSON_stringify
              (JObj [(''lastname'', JStr ''Doe''), (''id'', JStr ''4x42''), (''phone'', JStr ''555'')]))]
          form_config]
   \<and> snd (snd (deleteRelated stub_offline example_session ''contacts'' 42 ''documents'' 3 [])) =
       [Post ''https://crm.example/webservice.php''
          [(''operation'', ''delete_related''), (''sessionName'', ''s1''),
           (''sourceRecordId'', ''4x42''), (''relatedRecordId'', ''7x3'')]
          form_config]"
proof -
  have h1: "map_of [(''lastname'', JStr ''Doe'')] ''id'' = None" by simp
  have h2: "''id'' \<notin> fst ` set [(''lastname'', JStr ''Doe'')]" by simp
  from record_reference_format [OF example_rows(1) example_rows(2) safe_integer_examples(3) safe_integer_examples(1),
      where http = "stub_reply (JObj [(''success'', JBool True)])" and c = example_session and sent = "[]"]
  have 1: "retrieve (stub_reply (JObj [(''success'', JBool True)])) example_session ''contacts'' 42 [] =
       (Resolved (JObj [(''success'', JBool True)]),
        example_session,
        [Get ''https://crm.example/webservice.php''
           [(''operation'', JStr ''retrieve''), (''sessionName'', JStr ''s1''), (''id'', JStr ''4x42'')]])"
    by (simp add: stub_reply_def settle_def example_session_fields show_int_examples)
  from record_reference_format [OF example_rows(1) example_rows(2) safe_integer_examples(3) safe_integer_examples(1),
      where http = stub_offline and stringify = JSON_stringify and c = example_session and sent = "[]"
        and kvs = "[(''lastname'', JStr ''Doe'')]" and pre = "[(''lastname'', JStr ''Doe'')]"
        and old = "JStr ''9x1''" and post = "[(''phone'', JStr ''555'')]"] h1 h2
  have 2: "snd (snd (update stub_offline JSON_stringify example_session ''contacts'' 42
                  (JObj [(''lastname'', JStr ''Doe'')]) [])) =
       [Post ''https://crm.example/webservice.php''
          [(''operation'', ''update''), (''sessionName'', ''s1''),
           (''element'', JSON_stringify (JObj [(''lastname'', JStr ''Doe''), (''id'', JStr ''4x42'')]))]
          form_config]"
    and 3: "snd (snd (update stub_offline JSON_stringify example_session ''contacts'' 42
                  (JObj [(''lastname'', JStr ''Doe''), (''id'', JStr ''9x1''), (''phone'', JStr ''555'')]) [])) =
       [Post ''https://crm.example/webservice.php''
          [(''operation'', ''update''), (''sessionName'', ''s1''),
           (''element'', JSON_stringify
              (JObj [(''lastname'', JStr ''Doe''), (''id'', JStr ''4x42''), (''phone'', JStr ''555'')]))]
          form_config]"
    and 4: "snd (snd (deleteRelated stub_offline example_session ''contacts'' 42 ''documents'' 3 [])) =
       [Post ''https://crm.example/webservice.php''
          [(''operation'', ''delete_related''), (''sessionName'', ''s1''),
           (''sourceRecordId'', ''4x42''), (''relatedRecordId'', ''7x3'')]
          form_config]"
    by (simp_all only: example_session_fields show_int_examples js_to_string.simps append.simps simp_thms)
  from 1 2 3 4 h1 h2 example_rows safe_integer_examples show ?thesis by (intro conjI) simp_all
qed

text \<open>
  Claim C8. For a module key of the table, with the display name \<open>name\<close>, the one request of
  \<open>queryRelated\<close> carries as \<open>query\<close> the text \<open>SELECT * FROM\<close>, a blank and
  \<open>name\<close>, whatever the record number and the related label are; the method has no
  parameter for a query.
\<close>

theorem queryRelated_fixed_query:
  assumes "(m, i, name) \<in> set spec_module_table"
  shows "snd (snd (queryRelated http c m n label sent)) =
           sent @ [Get (webserviceUrl c)
              [(''operation'', JStr ''query_related''), (''sessionName'', sessionId c),
               (''query'', JStr (''SELECT * FROM '' @ name)),
               (''id'', JStr (show_int i @ ''x'' @ show_int n)),
               (''relatedLabel'', JStr label)]]"
  using module_table_row [OF assms] by (simp add: queryRelated_def axios_get_def Let_def)

theorem queryRelated_fixed_query_witness:
  "(''contacts'', 4, ''Contacts'') \<in> set spec_module_table
   \<and> snd (snd (queryRelated stub_offline example_session ''contacts'' 7 ''Documents'' [])) =
       [Get ''https://crm.example/webservice.php''
          [(''operation'', JStr ''query_related''), (''sessionName'', JStr ''s1''),
           (''query'', JStr ''SELECT * FROM Contacts''),
           (''id'', JStr ''4x7''),
           (''relatedLabel'', JStr ''Documents'')]]"
proof -
  from queryRelated_fixed_query [OF example_rows(1), of stub_offline example_session 7 "''Documents''" "[]"]
  show ?thesis
    by (simp add: example_rows example_session_fields show_int_examples)
qed

text \<open>
  Claim C6, as the code has it. \<open>create\<close> posts as \<open>element\<close> the encoding of an object
  that agrees with \<open>data\<close> on every field but \<open>assigned_user_id\<close>. If \<open>data\<close> has a
  truthy \<open>assigned_user_id\<close>, the object is \<open>data\<close> unchanged. If \<open>data\<close> has no
  \<open>assigned_user_id\<close>, or a falsy one (\<open>null\<close>, \<open>false\<close>, \<open>0\<close>, the empty string),
  its \<open>assigned_user_id\<close> is the client's current \<open>userId\<close>.
\<close>

theorem create_assigned_user_default:
  "(map_of data ''assigned_user_id'' = None \<longrightarrow>
      snd (snd (create http stringify c m (JObj data) sent)) =
        sent @ [Post (webserviceUrl c)
           [(''operation'', ''create''), (''sessionName'', js_to_string (sessionId c)),
            (''element'', stringify (JObj (data @ [(''assigned_user_id'', userId c)]))),
            (''elementType'', js_to_string (getModuleName m))]
           form_config])
   \<and> (map_of data ''assigned_user_id'' = Some v \<and> truthy v \<longrightarrow>
      snd (snd (create http stringify c m (JObj data) sent)) =
        sent @ [Post (webserviceUrl c)
           [(''operation'', ''create''), (''sessionName'', js_to_string (sessionId c)),
            (''element'', stringify (JObj data)),
            (''elementType'', js_to_string (getModuleName m))]
           form_config])
   \<and> (map_of data ''assigned_user_id'' = Some v \<and> \<not> truthy v \<longrightarrow>
      snd (snd (create http stringify c m (JObj data) sent)) =
        sent @ [Post (webserviceUrl c)
           [(''operation'', ''create''), (''sessionName'', js_to_string (sessionId c)),
            (''element'', stringify (JObj (obj_set ''assigned_user_id'' (userId c) data))),
            (''elementType'', js_to_string (getModuleName m))]
           form_config]
      \<and> map_of (obj_set ''assigned_user_id'' (userId c) data) =
          (map_of data)(''assigned_user_id'' \<mapsto> userId c))"
  by (simp add: create_def axios_post_def usp_append_def Let_def js_or_def
      obj_set_same obj_set_absent map_of_obj_set)

theorem create_assigned_user_default_witness:
  "map_of [(''lastname'', JStr ''Doe'')] ''assigned_user_id'' = None
   \<and> snd (snd (create stub_offline JSON_stringify example_session ''contacts''
                  (JObj [(''lastname'', JStr ''Doe'')]) [])) =
        [Post ''https://crm.example/webservice.php''
           [(''operation'', ''create''), (''sessionName'', ''s1''),
            (''element'', JSON_stringify (JObj [(''lastname'', JStr ''Doe''), (''assigned_user_id'', JStr ''19x5'')])),
            (''elementType'', ''Contacts'')]
           form_config]
   \<and> map_of [(''assigned_user_id'', JStr ''19x8''), (''lastname'', JStr ''Doe'')] ''assigned_user_id''
        = Some (JStr ''19x8'')
   \<and> truthy (JStr ''19x8'')
   \<and> snd (snd (create stub_offline JSON_stringify example_session ''contacts''
                  (JObj [(''assigned_user_id'', JStr ''19x8''), (''lastname'', JStr ''Doe'')]) [])) =
        [Post ''https://crm.example/webservice.php''
           [(''operation'', ''create''), (''sessionName'', ''s1''),
            (''element'', JSON_stringify (JObj [(''assigned_user_id'', JStr ''19x8''), (''lastname'', JStr ''Doe'')])),
            (''elementType'', ''Contacts'')]
           form_config]
   \<and> map_of [(''assigned_user_id'', JNum 0), (''lastname'', JStr ''Doe'')] ''assigned_user_id''
        = Some (JNum 0)
   \<and> \<not> truthy (JNum 0)
   \<and> snd (snd (create stub_offline JSON_stringify example_session ''contacts''
                  (JObj [(''assigned_user_id'', JNum 0), (''lastname'', JStr ''Doe'')]) [])) =
        [Post ''https://crm.example/webservice.php''
           [(''operation'', ''create''), (''sessionName'', ''s1''),
            (''element'', JSON_stringify (JObj [(''assigned_user_id'', JStr ''19x5''), (''lastname'', JStr ''Doe'')])),
            (''elementType'', ''Contacts'')]
           form_config]"
proof -
  have h1: "map_of [(''lastname'', JStr ''Doe'')] ''assigned_user_id'' = None" by simp
  have h2: "map_of [(''assigned_user_id'', JStr ''19x8''), (''lastname'', JStr ''Doe'')] ''assigned_user_id''
              = Some (JStr ''19x8'') \<and> truthy (JStr ''19x8'')" by simp
  have h3: "map_of [(''assigned_user_id'', JNum 0), (''lastname'', JStr ''Doe'')] ''assigned_user_id''
              = Some (JNum 0) \<and> \<not> truthy (JNum 0)" by simp
  from create_assigned_user_default [where data = "[(''lastname'', JStr ''Doe'')]" and http = stub_offline
      and stringify = JSON_stringify and c = example_session and m = "''contacts''" and sent = "[]"] h1
  have 1: "snd (snd (create stub_offline JSON_stringify example_session ''contacts''
                  (JObj [(''lastname'', JStr ''Doe'')]) [])) =
        [Post ''https://crm.example/webservice.php''
           [(''operation'', ''create''), (''sessionName'', ''s1''),
            (''element'', JSON_stringify (JObj [(''lastname'', JStr ''Doe''), (''assigned_user_id'', JStr ''19x5'')])),
            (''elementType'', ''Contacts'')]
           form_config]"
    by (simp only: example_session_fields example_modules js_to_string.simps append.simps simp_thms)
  from create_assigned_user_default [where data = "[(''assigned_user_id'', JStr ''19x8''), (''lastname'', JStr ''Doe'')]"
      and http = stub_offline and stringify = JSON_stringify and c = example_session and m = "''contacts''"
      and sent = "[]" and v = "JStr ''19x8''"] h2
  have 2: "snd (snd (create stub_offline JSON_stringify example_session ''contacts''
                  (JObj [(''assigned_user_id'', JStr ''19x8''), (''lastname'', JStr ''Doe'')]) [])) =
        [Post ''https://crm.example/webservice.php''
           [(''operation'', ''create''), (''sessionName'', ''s1''),
            (''element'', JSON_stringify (JObj [(''assigned_user_id'', JStr ''19x8''), (''lastname'', JStr ''Doe'')])),
            (''elementType'', ''Contacts'')]
           form_config]"
    by (simp only: example_session_fields example_modules js_to_string.simps append.simps simp_thms)
  from create_assigned_user_default [where data = "[(''assigned_user_id'', JNum 0), (''lastname'', JStr ''Doe'')]"
      and http = stub_offline and stringify = JSON_stringify and c = example_session and m = "''contacts''"
      and sent = "[]" and v = "JNum 0"] h3
  have 3: "snd (snd (create stub_offline JSON_stringify example_session ''contacts''
                  (JObj [(''assigned_user_id'', JNum 0), (''lastname'', JStr ''Doe'')]) [])) =
        [Post ''https://crm.example/webservice.php''
           [(''operation'', ''create''), (''sessionName'', ''s1''),
            (''element'', JSON_stringify (JObj [(''assigned_user_id'', JStr ''19x5''), (''lastname'', JStr ''Doe'')])),
            (''elementType'', ''Contacts'')]
           form_config]"
    by (simp add: example_session_fields example_modules)
  from h1 h2 h3 1 2 3 show ?thesis by (intro conjI) simp_all
qed

text \<open>
  The sentence of C6 about a field that is present fails for a falsy value: with
  \<open>assigned_user_id\<close> the empty string in \<open>data\<close> and \<open>19x5\<close> the current \<open>userId\<close>,
  the element posted has \<open>19x5\<close>, and is not the encoding of \<open>data\<close> as given.
\<close>

theorem create_falsy_assigned_user_counterexample:
  "map_of [(''lastname'', JStr ''Doe''), (''assigned_user_id'', JStr [])] ''assigned_user_id'' = Some (JStr [])
   \<and> snd (snd (create (stub_reply (JObj [(''success'', JBool True)])) JSON_stringify example_session
        ''contacts'' (JObj [(''lastname'', JStr ''Doe''), (''assigned_user_id'', JStr [])]) [])) =
       [Post ''https://crm.example/webservice.php''
          [(''operation'', ''create''), (''sessionName'', ''s1''),
           (''element'', JSON_stringify (JObj [(''lastname'', JStr ''Doe''), (''assigned_user_id'', JStr ''19x5'')])),
           (''elementType'', ''Contacts'')]
          form_config]
   \<and> JSON_stringify (JObj [(''lastname'', JStr ''Doe''), (''assigned_user_id'', JStr ''19x5'')])
       \<noteq> JSON_stringify (JObj [(''lastname'', JStr ''Doe''), (''assigned_user_id'', JStr [])])"
  by (simp add: create_def axios_post_def usp_append_def Let_def example_session_fields js_or_def
      example_modules json_quote_def json_escape_def)

text \<open>
  Claim C3, as the code has it. No operation checks the module key. For a key outside
  the 22 the resolver returns \<open>null\<close>, no error is raised on that account, and the
  operation makes its one request all the same: the text \<open>null\<close> stands where the
  module ID goes in a record reference (\<open>nullx\<close> and the record number), \<open>create\<close>
  posts \<open>elementType=null\<close>, \<open>queryRelated\<close> sends the query \<open>SELECT * FROM null\<close>,
  and the GET operations carry \<open>null\<close> as \<open>elementType\<close> or \<open>relatedType\<close>. The
  promise settles as the transport does. For \<open>create\<close> and \<open>update\<close> this is so when
  \<open>data\<close> is an object; when \<open>data\<close> is \<open>undefined\<close> or \<open>null\<close> they reject with
  the \<open>TypeError\<close> of the property access and make no request, as they do for a key
  of the table. Here \<open>m\<close> is the unknown key, \<open>k\<close> any other module argument, and
  \<open>n\<close>, \<open>n'\<close> are record numbers.
\<close>

theorem unknown_module_sends_null:
  assumes "m \<notin> set VtigerModule" and "safe_integer n" and "safe_integer n'"
  shows "(map_of kvs ''assigned_user_id'' = None \<longrightarrow>
         (let request = Post (webserviceUrl c)
              [(''operation'', ''create''),
               (''sessionName'', js_to_string (sessionId c)),
               (''element'', stringify (JObj (kvs @ [(''assigned_user_id'', userId c)]))),
               (''elementType'', ''null'')]
              form_config
         in create http stringify c m (JObj kvs) sent =
              (settle (http sent request), c, sent @ [request])))
       \<and> (''assigned_user_id'' \<notin> fst ` set pre \<longrightarrow>
         (let request = Post (webserviceUrl c)
              [(''operation'', ''create''),
               (''sessionName'', js_to_string (sessionId c)),
               (''element'', stringify (JObj (pre @ (''assigned_user_id'', if truthy old then old else userId c) # post))),
               (''elementType'', ''null'')]
              form_config
         in create http stringify c m (JObj (pre @ (''assigned_user_id'', old) # post)) sent =
              (settle (http sent request), c, sent @ [request])))
       \<and> create http stringify c m JUndefined sent =
           (Rejected (JsTypeError ''Cannot read properties of undefined (reading 'assigned_user_id')''), c, sent)
       \<and> create http stringify c m JNull sent =
           (Rejected (JsTypeError ''Cannot read properties of null (reading 'assigned_user_id')''), c, sent)
       \<and> (let request = Get (webserviceUrl c)
              [(''operation'', JStr ''retrieve''),
               (''sessionName'', sessionId c),
               (''id'', JStr (''nullx'' @ show_int n))]
         in retrieve http c m n sent =
              (settle (http sent request), c, sent @ [request]))
       \<and> (map_of kvs ''id'' = None \<longrightarrow>
         (let request = Post (webserviceUrl c)
              [(''operation'', ''update''),
               (''sessionName'', js_to_string (sessionId c)),
               (''element'', stringify (JObj (kvs @ [(''id'', JStr (''nullx'' @ show_int n))])))]
              form_config
         in update http stringify c m n (JObj kvs) sent =
              (settle (http sent request), c, sent @ [request])))
       \<and> (''id'' \<notin> fst ` set pre \<longrightarrow>
         (let request = Post (webserviceUrl c)
              [(''operation'', ''update''),
               (''sessionName'', js_to_string (sessionId c)),
               (''element'', stringify (JObj (pre @ (''id'', JStr (''nullx'' @ show_int n)) # post)))]
              form_config
         in update http stringify c m n (JObj (pre @ (''id'', old) # post)) sent =
              (settle (http sent request), c, sent @ [request])))
       \<and> update http stringify c m n JUndefined sent =
           (Rejected (JsTypeError ''Cannot set properties of undefined (setting 'id')''), c, sent)
       \<and> update http stringify c m n JNull sent =
           (Rejected (JsTypeError ''Cannot set properties of null (setting 'id')''), c, sent)
       \<and> (let request = Post (webserviceUrl c)
              [(''operation'', ''delete''),
               (''sessionName'', js_to_string (sessionId c)),
               (''id'', ''nullx'' @ show_int n)]
              form_config
         in delete http c m n sent =
              (settle (http sent request), c, sent @ [request]))
       \<and> (let request = Get (webserviceUrl c)
              [(''operation'', JStr ''describe''),
               (''sessionName'', sessionId c),
               (''elementType'', JNull)]
         in describe http c m sent =
              (settle (http sent request), c, sent @ [request]))
       \<and> (let request = Get (webserviceUrl c)
              [(''operation'', JStr ''retrieve_related''),
               (''sessionName'', sessionId c),
               (''id'', JStr (''nullx'' @ show_int n)),
               (''relatedLabel'', JStr label),
               (''relatedType'', getModuleName k)]
         in retrieveRelated http c m n k label sent =
              (settle (http sent request), c, sent @ [request]))
       \<and> (let request = Get (webserviceUrl c)
              [(''operation'', JStr ''retrieve_related''),
               (''sessionName'', sessionId c),
               (''id'', JStr (js_to_string (getModuleId k) @ ''x'' @ show_int n')),
               (''relatedLabel'', JStr label),
               (''relatedType'', JNull)]
         in retrieveRelated http c k n' m label sent =
              (settle (http sent request), c, sent @ [request]))
       \<and> (let request = Get (webserviceUrl c)
              [(''operation'', JStr ''relatedtypes''),
               (''sessionName'', sessionId c),
               (''elementType'', JNull)]
         in relatedTypes http c m sent =
              (settle (http sent request), c, sent @ [request]))
       \<and> (let request = Get (webserviceUrl c)
              [(''operation'', JStr ''query_related''),
               (''sessionName'', sessionId c),
               (''query'', JStr ''SELECT * FROM null''),
               (''id'', JStr (''nullx'' @ show_int n)),
               (''relatedLabel'', JStr label)]
         in queryRelated http c m n label sent =
              (settle (http sent request), c, sent @ [request]))
       \<and> (let request = Post (webserviceUrl c)
              [(''operation'', ''delete_related''),
               (''sessionName'', js_to_string (sessionId c)),
               (''sourceRecordId'', ''nullx'' @ show_int n),
               (''relatedRecordId'', js_to_string (getModuleId k) @ ''x'' @ show_int n')]
              form_config
         in deleteRelated http c m n k n' sent =
              (settle (http sent request), c, sent @ [request]))
       \<and> (let request = Post (webserviceUrl c)
              [(''operation'', ''delete_related''),
               (''sessionName'', js_to_string (sessionId c)),
               (''sourceRecordId'', js_to_string (getModuleId k) @ ''x'' @ show_int n'),
               (''relatedRecordId'', ''nullx'' @ show_int n)]
              form_config
         in deleteRelated http c k n' m n sent =
              (settle (http sent request), c, sent @ [request]))
       \<and> (let request = Post (webserviceUrl c)
              [(''operation'', ''add_related''),
               (''sessionName'', js_to_string (sessionId c)),
               (''sourceRecordId'', ''nullx'' @ show_int n),
               (''relatedRecordId'', js_to_string (getModuleId k) @ ''x'' @ show_int n'),
               (''relationIdLabel'', label)]
              form_config
         in addRelated http c m n k n' label sent =
              (settle (http sent request), c, sent @ [request]))
       \<and> (let request = Post (webserviceUrl c)
              [(''operation'', ''add_related''),
               (''sessionName'', js_to_string (sessionId c)),
               (''sourceRecordId'', js_to_string (getModuleId k) @ ''x'' @ show_int n'),
               (''relatedRecordId'', ''nullx'' @ show_int n),
               (''relationIdLabel'', label)]
              form_config
         in addRelated http c k n' m n label sent =
              (settle (http sent request), c, sent @ [request]))"
  using unknown_module [OF assms(1)]
  by (simp add: create_object_absent create_object_present create_no_object
      update_object_absent update_object_present update_no_object
      retrieve_def delete_def query_def listTypes_def describe_def
      retrieveRelated_def relatedTypes_def queryRelated_def deleteRelated_def addRelated_def
      axios_get_def axios_post_def usp_append_def Let_def)

theorem unknown_module_sends_null_witness:
  "''widgets'' \<notin> set VtigerModule \<and> safe_integer 42 \<and> safe_integer 7
   \<and> map_of [(''lastname'', JStr ''Doe'')] ''assigned_user_id'' = None
   \<and> create stub_offline JSON_stringify example_session ''widgets'' (JObj [(''lastname'', JStr ''Doe'')]) [] =
       (Rejected (AxiosError ''Network Error''), example_session,
        [Post ''https://crm.example/webservice.php''
           [(''operation'', ''create''), (''sessionName'', ''s1''),
            (''element'', JSON_stringify (JObj [(''lastname'', JStr ''Doe''), (''assigned_user_id'', JStr ''19x5'')])),
            (''elementType'', ''null'')]
           form_config])
   \<and> ''assigned_user_id'' \<notin> fst ` set [(''lastname'', JStr ''Doe'')]
   \<and> create stub_offline JSON_stringify example_session ''widgets''
        (JObj [(''lastname'', JStr ''Doe''), (''assigned_user_id'', JStr ''19x8'')]) [] =
       (Rejected (AxiosError ''Network Error''), example_session,
        [Post ''https://crm.example/webservice.php''
           [(''operation'', ''create''), (''sessionName'', ''s1''),
            (''element'', JSON_stringify (JObj [(''lastname'', JStr ''Doe''), (''assigned_user_id'', JStr ''19x8'')])),
            (''elementType'', ''null'')]
           form_config])
   \<and> map_of [(''lastname'', JStr ''Doe'')] ''id'' = None
   \<and> update stub_offline JSON_stringify example_session ''widgets'' 42 (JObj [(''lastname'', JStr ''Doe'')]) [] =
       (Rejected (AxiosError ''Network Error''), example_session,
        [Post ''https://crm.example/webservice.php''
           [(''operation'', ''update''), (''sessionName'', ''s1''),
            (''element'', JSON_stringify (JObj [(''lastname'', JStr ''Doe''), (''id'', JStr ''nullx42'')]))]
           form_config])
   \<and> ''id'' \<notin> fst ` set [(''lastname'', JStr ''Doe'')]
   \<and> update stub_offline JSON_stringify example_session ''widgets'' 42
        (JObj [(''lastname'', JStr ''Doe''), (''id'', JStr ''19x8'')]) [] =
       (Rejected (AxiosError ''Network Error''), example_session,
        [Post ''https://crm.example/webservice.php''
           [(''operation'', ''update''), (''sessionName'', ''s1''),
            (''element'', JSON_stringify (JObj [(''lastname'', JStr ''Doe''), (''id'', JStr ''nullx42'')]))]
           form_config])
   \<and> update stub_offline JSON_stringify example_session ''widgets'' 42 JNull [] =
       (Rejected (JsTypeError ''Cannot set properties of null (setting 'id')''), example_session, [])
   \<and> describe stub_offline example_session ''widgets'' [] =
       (Rejected (AxiosError ''Network Error''), example_session,
        [Get ''https://crm.example/webservice.php''
           [(''operation'', JStr ''describe''), (''sessionName'', JStr ''s1''), (''elementType'', JNull)]])
   \<and> deleteRelated stub_offline example_session ''contacts'' 7 ''widgets'' 42 [] =
       (Rejected (AxiosError ''Network Error''), example_session,
        [Post ''https://crm.example/webservice.php''
           [(''operation'', ''delete_related''), (''sessionName'', ''s1''),
            (''sourceRecordId'', ''4x7''), (''relatedRecordId'', ''nullx42'')]
           form_config])"
proof -
  have h: "map_of [(''lastname'', JStr ''Doe'')] ''assigned_user_id'' = None"
      "''assigned_user_id'' \<notin> fst ` set [(''lastname'', JStr ''Doe'')]"
      "map_of [(''lastname'', JStr ''Doe'')] ''id'' = None"
      "''id'' \<notin> fst ` set [(''lastname'', JStr ''Doe'')]"
    by simp_all
  have t: "truthy (JStr ''19x8'')" by simp
  note run = unknown_module_sends_null [OF example_modules(5) safe_integer_examples(3) safe_integer_examples(2),
      where http = stub_offline and stringify = JSON_stringify and c = example_session and sent = "[]"
        and k = "''contacts''" and kvs = "[(''lastname'', JStr ''Doe'')]"
        and pre = "[(''lastname'', JStr ''Doe'')]" and old = "JStr ''19x8''" and post = "[]"]
  from run h t
  have 1: "create stub_offline JSON_stringify example_session ''widgets'' (JObj [(''lastname'', JStr ''Doe'')]) [] =
       (Rejected (AxiosError ''Network Error''), example_session,
        [Post ''https://crm.example/webservice.php''
           [(''operation'', ''create''), (''sessionName'', ''s1''),
            (''element'', JSON_stringify (JObj [(''lastname'', JStr ''Doe''), (''assigned_user_id'', JStr ''19x5'')])),
            (''elementType'', ''null'')]
           form_config])"
    and 2: "create stub_offline JSON_stringify example_session ''widgets''
        (JObj [(''lastname'', JStr ''Doe''), (''assigned_user_id'', JStr ''19x8'')]) [] =
       (Rejected (AxiosError ''Network Error''), example_session,
        [Post ''https://crm.example/webservice.php''
           [(''operation'', ''create''), (''sessionName'', ''s1''),
            (''element'', JSON_stringify (JObj [(''lastname'', JStr ''Doe''), (''assigned_user_id'', JStr ''19x8'')])),
            (''elementType'', ''null'')]
           form_config])"
    and 3: "update stub_offline JSON_stringify example_session ''widgets'' 42 (JObj [(''lastname'', JStr ''Doe'')]) [] =
       (Rejected (AxiosError ''Network Error''), example_session,
        [Post ''https://crm.example/webservice.php''
           [(''operation'', ''update''), (''sessionName'', ''s1''),
            (''element'', JSON_stringify (JObj [(''lastname'', JStr ''Doe''), (''id'', JStr ''nullx42'')]))]
           form_config])"
    and 4: "update stub_offline JSON_stringify example_session ''widgets'' 42
        (JObj [(''lastname'', JStr ''Doe''), (''id'', JStr ''19x8'')]) [] =
       (Rejected (AxiosError ''Network Error''), example_session,
        [Post ''https://crm.example/webservice.php''
           [(''operation'', ''update''), (''sessionName'', ''s1''),
            (''element'', JSON_stringify (JObj [(''lastname'', JStr ''Doe''), (''id'', JStr ''nullx42'')]))]
           form_config])"
    and 5: "update stub_offline JSON_stringify example_session ''widgets'' 42 JNull [] =
       (Rejected (JsTypeError ''Cannot set properties of null (setting 'id')''), example_session, [])"
    and 6: "describe stub_offline example_session ''widgets'' [] =
       (Rejected (AxiosError ''Network Error''), example_session,
        [Get ''https://crm.example/webservice.php''
           [(''operation'', JStr ''describe''), (''sessionName'', JStr ''s1''), (''elementType'', JNull)]])"
    and 7: "deleteRelated stub_offline example_session ''contacts'' 7 ''widgets'' 42 [] =
       (Rejected (AxiosError ''Network Error''), example_session,
        [Post ''https://crm.example/webservice.php''
           [(''operation'', ''delete_related''), (''sessionName'', ''s1''),
            (''sourceRecordId'', ''4x7''), (''relatedRecordId'', ''nullx42'')]
           form_config])"
    by (simp_all only: Let_def stub_offline_def settle_def sum.case example_session_fields
        example_modules show_int_examples js_to_string.simps append.simps if_True simp_thms)
  from 1 2 3 4 5 6 7 h example_modules(5) safe_integer_examples show ?thesis
    by (intro conjI) simp_all
qed

text \<open>
  The claim C3 as stated fails: \<open>retrieve\<close> with the key \<open>widgets\<close>, which is none of
  the 22, raises nothing and sends \<open>id=nullx42\<close>; the promise resolves with the
  transport's answer.
\<close>

theorem unknown_module_counterexample:
  "''widgets'' \<notin> set VtigerModule
   \<and> retrieve (stub_reply (JObj [(''success'', JBool True), (''result'', JNull)])) example_session
        ''widgets'' 42 [] =
       (Resolved (JObj [(''success'', JBool True), (''result'', JNull)]), example_session,
        [Get ''https://crm.example/webservice.php''
           [(''operation'', JStr ''retrieve''), (''sessionName'', JStr ''s1''),
            (''id'', JStr ''nullx42'')]])"
  by (simp add: retrieve_def axios_get_def Let_def stub_reply_def settle_def example_session_fields
      getModuleId_def VtigerModule_def show_int_examples)

text \<open>
  Claim C10, as the code has it. On a client whose \<open>sessionId\<close> is still the \<open>null\<close>
  of the constructor, each of the twelve dispatcher operations raises nothing on that
  account and makes its one request. The GET operations pass \<open>sessionName\<close> as \<open>null\<close>;
  the POST operations put the value into a form body, where it is the four letters
  \<open>null\<close>. The promise resolves with whatever body the transport decodes, an envelope
  with \<open>success: false\<close> included, and rejects with the transport's error when the
  transport fails. For \<open>create\<close> and \<open>update\<close> this is so when \<open>data\<close> is an object;
  when \<open>data\<close> is \<open>undefined\<close> or \<open>null\<close> they reject with the \<open>TypeError\<close> of the
  property access and make no request, with or without a session. \<open>n\<close> and \<open>n'\<close> are
  record numbers.
\<close>

theorem no_session_request_still_sent:
  assumes "sessionId c = JNull" and "safe_integer n" and "safe_integer n'"
  shows "(map_of kvs ''assigned_user_id'' = None \<longrightarrow>
         (let request = Post (webserviceUrl c)
              [(''operation'', ''create''),
               (''sessionName'', ''null''),
               (''element'', stringify (JObj (kvs @ [(''assigned_user_id'', userId c)]))),
               (''elementType'', js_to_string (getModuleName m))]
              form_config
         in create http stringify c m (JObj kvs) sent =
              (settle (http sent request), c, sent @ [request])))
       \<and> (''assigned_user_id'' \<notin> fst ` set pre \<longrightarrow>
         (let request = Post (webserviceUrl c)
              [(''operation'', ''create''),
               (''sessionName'', ''null''),
               (''element'', stringify (JObj (pre @ (''assigned_user_id'', if truthy old then old else userId c) # post))),
               (''elementType'', js_to_string (getModuleName m))]
              form_config
         in create http stringify c m (JObj (pre @ (''assigned_user_id'', old) # post)) sent =
              (settle (http sent request), c, sent @ [request])))
       \<and> create http stringify c m JUndefined sent =
           (Rejected (JsTypeError ''Cannot read properties of undefined (reading 'assigned_user_id')''), c, sent)
       \<and> create http stringify c m JNull sent =
           (Rejected (JsTypeError ''Cannot read properties of null (reading 'assigned_user_id')''), c, sent)
       \<and> (let request = Get (webserviceUrl c)
              [(''operation'', JStr ''retrieve''),
               (''sessionName'', JNull),
               (''id'', JStr (js_to_string (getModuleId m) @ ''x'' @ show_int n))]
         in retrieve http c m n sent =
              (settle (http sent request), c, sent @ [request]))
       \<and> (map_of kvs ''id'' = None \<longrightarrow>
         (let request = Post (webserviceUrl c)
              [(''operation'', ''update''),
               (''sessionName'', ''null''),
               (''element'', stringify (JObj (kvs @ [(''id'', JStr (js_to_string (getModuleId m) @ ''x'' @ show_int n))])))]
              form_config
         in update http stringify c m n (JObj kvs) sent =
              (settle (http sent request), c, sent @ [request])))
       \<and> (''id'' \<notin> fst ` set pre \<longrightarrow>
         (let request = Post (webserviceUrl c)
              [(''operation'', ''update''),
               (''sessionName'', ''null''),
               (''element'', stringify (JObj (pre @ (''id'', JStr (js_to_string (getModuleId m) @ ''x'' @ show_int n)) # post)))]
              form_config
         in update http stringify c m n (JObj (pre @ (''id'', old) # post)) sent =
              (settle (http sent request), c, sent @ [request])))
       \<and> update http stringify c m n JUndefined sent =
           (Rejected (JsTypeError ''Cannot set properties of undefined (setting 'id')''), c, sent)
       \<and> update http stringify c m n JNull sent =
           (Rejected (JsTypeError ''Cannot set properties of null (setting 'id')''), c, sent)
       \<and> (let request = Post (webserviceUrl c)
              [(''operation'', ''delete''),
               (''sessionName'', ''null''),
               (''id'', js_to_string (getModuleId m) @ ''x'' @ show_int n)]
              form_config
         in delete http c m n sent =
              (settle (http sent request), c, sent @ [request]))
       \<and> (let request = Get (webserviceUrl c)
              [(''operation'', JStr ''query''),
               (''sessionName'', JNull),
               (''query'', JStr q)]
         in query http c q sent =
              (settle (http sent request), c, sent @ [request]))
       \<and> (let request = Get (webserviceUrl c)
              [(''operation'', JStr ''listtypes''),
               (''sessionName'', JNull)]
         in listTypes http c sent =
              (settle (http sent request), c, sent @ [request]))
       \<and> (let request = Get (webserviceUrl c)
              [(''operation'', JStr ''describe''),
               (''sessionName'', JNull),
               (''elementType'', getModuleName m)]
         in describe http c m sent =
              (settle (http sent request), c, sent @ [request]))
       \<and> (let request = Get (webserviceUrl c)
              [(''operation'', JStr ''retrieve_related''),
               (''sessionName'', JNull),
               (''id'', JStr (js_to_string (getModuleId m) @ ''x'' @ show_int n)),
               (''relatedLabel'', JStr label),
               (''relatedType'', getModuleName k)]
         in retrieveRelated http c m n k label sent =
              (settle (http sent request), c, sent @ [request]))
       \<and> (let request = Get (webserviceUrl c)
              [(''operation'', JStr ''relatedtypes''),
               (''sessionName'', JNull),
               (''elementType'', getModuleName m)]
         in relatedTypes http c m sent =
              (settle (http sent request), c, sent @ [request]))
       \<and> (let request = Get (webserviceUrl c)
              [(''operation'', JStr ''query_related''),
               (''sessionName'', JNull),
               (''query'', JStr (''SELECT * FROM '' @ js_to_string (getModuleName m))),
               (''id'', JStr (js_to_string (getModuleId m) @ ''x'' @ show_int n)),
               (''relatedLabel'', JStr label)]
         in queryRelated http c m n label sent =
              (settle (http sent request), c, sent @ [request]))
       \<and> (let request = Post (webserviceUrl c)
              [(''operation'', ''delete_related''),
               (''sessionName'', ''null''),
               (''sourceRecordId'', js_to_string (getModuleId m) @ ''x'' @ show_int n),
               (''relatedRecordId'', js_to_string (getModuleId k) @ ''x'' @ show_int n')]
              form_config
         in deleteRelated http c m n k n' sent =
              (settle (http sent request), c, sent @ [request]))
       \<and> (let request = Post (webserviceUrl c)
              [(''operation'', ''add_related''),
               (''sessionName'', ''null''),
               (''sourceRecordId'', js_to_string (getModuleId m) @ ''x'' @ show_int n),
               (''relatedRecordId'', js_to_string (getModuleId k) @ ''x'' @ show_int n'),
               (''relationIdLabel'', label)]
              form_config
         in addRelated http c m n k n' label sent =
              (settle (http sent request), c, sent @ [request]))
       \<and> settle (Inr d) = Resolved d \<and> settle (Inl e) = Rejected e"
  using assms(1)
  by (simp add: create_object_absent create_object_present create_no_object
      update_object_absent update_object_present update_no_object
      retrieve_def delete_def query_def listTypes_def describe_def
      retrieveRelated_def relatedTypes_def queryRelated_def deleteRelated_def addRelated_def
      axios_get_def axios_post_def usp_append_def Let_def settle_def)

theorem no_session_request_still_sent_witness:
  "sessionId example_client = JNull \<and> safe_integer 42 \<and> safe_integer 7
   \<and> query (stub_reply (JObj [(''success'', JBool False),
                               (''error'', JObj [(''code'', JStr ''INVALID_SESSIONID'')])]))
        example_client ''SELECT * FROM Leads;'' [] =
       (Resolved (JObj [(''success'', JBool False), (''error'', JObj [(''code'', JStr ''INVALID_SESSIONID'')])]),
        example_client,
        [Get ''https://crm.example/webservice.php''
           [(''operation'', JStr ''query''), (''sessionName'', JNull),
            (''query'', JStr ''SELECT * FROM Leads;'')]])
   \<and> delete stub_offline example_client ''contacts'' 42 [] =
       (Rejected (AxiosError ''Network Error''), example_client,
        [Post ''https://crm.example/webservice.php''
           [(''operation'', ''delete''), (''sessionName'', ''null''), (''id'', ''4x42'')]
           form_config])
   \<and> map_of [(''lastname'', JStr ''Doe'')] ''assigned_user_id'' = None
   \<and> create stub_offline JSON_stringify example_client ''contacts'' (JObj [(''lastname'', JStr ''Doe'')]) [] =
       (Rejected (AxiosError ''Network Error''), example_client,
        [Post ''https://crm.example/webservice.php''
           [(''operation'', ''create''), (''sessionName'', ''null''),
            (''element'', JSON_stringify (JObj [(''lastname'', JStr ''Doe''), (''assigned_user_id'', JNull)])),
            (''elementType'', ''Contacts'')]
           form_config])
   \<and> ''assigned_user_id'' \<notin> fst ` set [(''lastname'', JStr ''Doe'')]
   \<and> create stub_offline JSON_stringify example_client ''contacts''
        (JObj [(''lastname'', JStr ''Doe''), (''assigned_user_id'', JStr ''19x8'')]) [] =
       (Rejected (AxiosError ''Network Error''), example_client,
        [Post ''https://crm.example/webservice.php''
           [(''operation'', ''create''), (''sessionName'', ''null''),
            (''element'', JSON_stringify (JObj [(''lastname'', JStr ''Doe''), (''assigned_user_id'', JStr ''19x8'')])),
            (''elementType'', ''Contacts'')]
           form_config])
   \<and> map_of [(''lastname'', JStr ''Doe'')] ''id'' = None
   \<and> update stub_offline JSON_stringify example_client ''contacts'' 42 (JObj [(''lastname'', JStr ''Doe'')]) [] =
       (Rejected (AxiosError ''Network Error''), example_client,
        [Post ''https://crm.example/webservice.php''
           [(''operation'', ''update''), (''sessionName'', ''null''),
            (''element'', JSON_stringify (JObj [(''lastname'', JStr ''Doe''), (''id'', JStr ''4x42'')]))]
           form_config])
   \<and> ''id'' \<notin> fst ` set [(''lastname'', JStr ''Doe'')]
   \<and> update stub_offline JSON_stringify example_client ''contacts'' 42
        (JObj [(''lastname'', JStr ''Doe''), (''id'', JStr ''19x8'')]) [] =
       (Rejected (AxiosError ''Network Error''), example_client,
        [Post ''https://crm.example/webservice.php''
           [(''operation'', ''update''), (''sessionName'', ''null''),
            (''element'', JSON_stringify (JObj [(''lastname'', JStr ''Doe''), (''id'', JStr ''4x42'')]))]
           form_config])
   \<and> create stub_offline JSON_stringify example_client ''contacts'' JUndefined [] =
       (Rejected (JsTypeError ''Cannot read properties of undefined (reading 'assigned_user_id')''),
        example_client, [])"
proof -
  have h: "map_of [(''lastname'', JStr ''Doe'')] ''assigned_user_id'' = None"
      "''assigned_user_id'' \<notin> fst ` set [(''lastname'', JStr ''Doe'')]"
      "map_of [(''lastname'', JStr ''Doe'')] ''id'' = None"
      "''id'' \<notin> fst ` set [(''lastname'', JStr ''Doe'')]"
    by simp_all
  have t: "truthy (JStr ''19x8'')" by simp
  from no_session_request_still_sent [OF example_client_fields(4) safe_integer_examples(3) safe_integer_examples(2),
      where http = "stub_reply (JObj [(''success'', JBool False),
                               (''error'', JObj [(''code'', JStr ''INVALID_SESSIONID'')])])" and sent = "[]"
        and q = "''SELECT * FROM Leads;''"]
  have 1: "query (stub_reply (JObj [(''success'', JBool False),
                               (''error'', JObj [(''code'', JStr ''INVALID_SESSIONID'')])]))
        example_client ''SELECT * FROM Leads;'' [] =
       (Resolved (JObj [(''success'', JBool False), (''error'', JObj [(''code'', JStr ''INVALID_SESSIONID'')])]),
        example_client,
        [Get ''https://crm.example/webservice.php''
           [(''operation'', JStr ''query''), (''sessionName'', JNull),
            (''query'', JStr ''SELECT * FROM Leads;'')]])"
    by (simp add: Let_def stub_reply_def settle_def example_client_fields)
  note run = no_session_request_still_sent [OF example_client_fields(4) safe_integer_examples(3) safe_integer_examples(2),
      where http = stub_offline and stringify = JSON_stringify and sent = "[]" and m = "''contacts''"
        and kvs = "[(''lastname'', JStr ''Doe'')]"
        and pre = "[(''lastname'', JStr ''Doe'')]" and old = "JStr ''19x8''" and post = "[]"]
  from run h t
  have 2: "delete stub_offline example_client ''contacts'' 42 [] =
       (Rejected (AxiosError ''Network Error''), example_client,
        [Post ''https://crm.example/webservice.php''
           [(''operation'', ''delete''), (''sessionName'', ''null''), (''id'', ''4x42'')]
           form_config])"
    and 3: "create stub_offline JSON_stringify example_client ''contacts'' (JObj [(''lastname'', JStr ''Doe'')]) [] =
       (Rejected (AxiosError ''Network Error''), example_client,
        [Post ''https://crm.example/webservice.php''
           [(''operation'', ''create''), (''sessionName'', ''null''),
            (''element'', JSON_stringify (JObj [(''lastname'', JStr ''Doe''), (''assigned_user_id'', JNull)])),
            (''elementType'', ''Contacts'')]
           form_config])"
    and 4: "create stub_offline JSON_stringify example_client ''contacts''
        (JObj [(''lastname'', JStr ''Doe''), (''assigned_user_id'', JStr ''19x8'')]) [] =
       (Rejected (AxiosError ''Network Error''), example_client,
        [Post ''https://crm.example/webservice.php''
           [(''operation'', ''create''), (''sessionName'', ''null''),
            (''element'', JSON_stringify (JObj [(''lastname'', JStr ''Doe''), (''assigned_user_id'', JStr ''19x8'')])),
            (''elementType'', ''Contacts'')]
           form_config])"
    and 5: "update stub_offline JSON_stringify example_client ''contacts'' 42 (JObj [(''lastname'', JStr ''Doe'')]) [] =
       (Rejected (AxiosError ''Network Error''), example_client,
        [Post ''https://crm.example/webservice.php''
           [(''operation'', ''update''), (''sessionName'', ''null''),
            (''element'', JSON_stringify (JObj [(''lastname'', JStr ''Doe''), (''id'', JStr ''4x42'')]))]
           form_config])"
    and 6: "update stub_offline JSON_stringify example_client ''contacts'' 42
        (JObj [(''lastname'', JStr ''Doe''), (''id'', JStr ''19x8'')]) [] =
       (Rejected (AxiosError ''Network Error''), example_client,
        [Post ''https://crm.example/webservice.php''
           [(''operation'', ''update''), (''sessionName'', ''null''),
            (''element'', JSON_stringify (JObj [(''lastname'', JStr ''Doe''), (''id'', JStr ''4x42'')]))]
           form_config])"
    and 7: "create stub_offline JSON_stringify example_client ''contacts'' JUndefined [] =
       (Rejected (JsTypeError ''Cannot read properties of undefined (reading 'assigned_user_id')''),
        example_client, [])"
    by (simp_all only: Let_def stub_offline_def settle_def sum.case example_client_fields
        example_modules show_int_examples js_to_string.simps append.simps if_True simp_thms)
  from 1 2 3 4 5 6 7 h example_client_fields(4) safe_integer_examples show ?thesis
    by (intro conjI) simp_all
qed

text \<open>
  The claim C10 as stated fails for the operations that POST: before any login,
  \<open>create\<close> sends \<open>sessionName=null\<close>, a parameter that is present and not empty.
  The remote's refusal comes back as the resolved value.
\<close>

theorem no_session_counterexample:
  "create (stub_reply (JObj [(''success'', JBool False),
                             (''error'', JObj [(''code'', JStr ''INVALID_SESSIONID'')])]))
     JSON_stringify example_client ''contacts'' (JObj [(''lastname'', JStr ''Doe'')]) [] =
     (Resolved (JObj [(''success'', JBool False), (''error'', JObj [(''code'', JStr ''INVALID_SESSIONID'')])]),
      example_client,
      [Post ''https://crm.example/webservice.php''
         [(''operation'', ''create''), (''sessionName'', ''null''),
          (''element'', JSON_stringify (JObj [(''lastname'', JStr ''Doe''), (''assigned_user_id'', JNull)])),
          (''elementType'', ''Contacts'')]
         form_config])
   \<and> ''null'' \<noteq> []"
  by (simp add: create_def axios_post_def usp_append_def Let_def stub_reply_def settle_def
      example_client_fields js_or_def example_modules)

end
